theory Spec2Isabelle
  imports Complex_Main "HOL-Library.AList"
begin

section \<open>JSON documents as the Python code sees them\<close>

text \<open>
  The server reads every document with \<^verbatim>\<open>response.json()\<close>, that is \<^verbatim>\<open>json.loads\<close>:
  a document is a tree of \<^verbatim>\<open>None\<close>, \<^verbatim>\<open>bool\<close>, \<^verbatim>\<open>int\<close>, \<^verbatim>\<open>float\<close>, \<^verbatim>\<open>str\<close>, \<^verbatim>\<open>list\<close> and
  \<^verbatim>\<open>dict\<close> values. A float is a finite value (every double is a rational), an infinity
  or NaN, all of which \<^verbatim>\<open>json.loads\<close> accepts. A str is the list of its characters. A
  dict is an association list in insertion order, read with \<open>map_of\<close>: its keys are
  the first components, each counted once.
\<close>

datatype pyfloat = Finite rat | PosInf | NegInf | NaN

datatype json =
    JNull
  | JBool bool
  | JInt int
  | JFloat pyfloat
  | JStr string
  | JList "json list"
  | JDict "(string \<times> json) list"

type_synonym jobject = "(string \<times> json) list"

subsection \<open>Exceptions\<close>

text \<open>
  The classes the code distinguishes in its \<^verbatim>\<open>except\<close> clauses, and the ones the
  interpreter raises on a value of the wrong type. \<open>NetworkError\<close> stands for the
  \<^verbatim>\<open>httpx.HTTPError\<close> subclasses other than timeouts and status errors (connection
  refused, read error, ...); \<open>OtherException\<close> for any other subclass of
  \<^verbatim>\<open>Exception\<close>. An exception carries its text, \<^verbatim>\<open>str(e)\<close>.
\<close>

datatype exn_class =
    AttributeError | TypeError | KeyError | ValueError | JSONDecodeError
  | TimeoutException | HTTPStatusError | NetworkError | OtherException

datatype exn = Exn (cls: exn_class) (str_of: string)

fun isinstance_TimeoutException :: "exn \<Rightarrow> bool" where
  "isinstance_TimeoutException (Exn c m) = (c = TimeoutException)"

fun isinstance_HTTPError :: "exn \<Rightarrow> bool" where
  "isinstance_HTTPError (Exn c m) =
     (c = TimeoutException \<or> c = HTTPStatusError \<or> c = NetworkError)"

fun isinstance_JSONDecodeError :: "exn \<Rightarrow> bool" where
  "isinstance_JSONDecodeError (Exn c m) = (c = JSONDecodeError)"

text \<open>A statement that raises ends the block it is in: what follows it is not run.\<close>

definition and_then :: "exn + 'a \<Rightarrow> ('a \<Rightarrow> exn + 'b) \<Rightarrow> exn + 'b" where
  "and_then m f = (case m of Inl e \<Rightarrow> Inl e | Inr x \<Rightarrow> f x)"

text \<open>
  \<^verbatim>\<open>try: m except ...: h\<close>, where the handler \<open>h\<close> tests the class of the exception
  itself and raises it again when no clause matches.
\<close>

definition try_except :: "exn + 'a \<Rightarrow> (exn \<Rightarrow> exn + 'a) \<Rightarrow> exn + 'a" where
  "try_except m h = (case m of Inl e \<Rightarrow> h e | Inr x \<Rightarrow> Inr x)"

subsection \<open>The operations of Python the code applies to a document\<close>

fun type_name :: "json \<Rightarrow> string" where
  "type_name JNull = ''NoneType''"
| "type_name (JBool b) = ''bool''"
| "type_name (JInt i) = ''int''"
| "type_name (JFloat f) = ''float''"
| "type_name (JStr s) = ''str''"
| "type_name (JList xs) = ''list''"
| "type_name (JDict kvs) = ''dict''"

definition no_attribute :: "json \<Rightarrow> string \<Rightarrow> exn" where
  "no_attribute v a =
     Exn AttributeError
       ([CHR 0x27] @ type_name v @ [CHR 0x27] @ '' object has no attribute ''
          @ [CHR 0x27] @ a @ [CHR 0x27])"

definition type_error :: "string \<Rightarrow> exn" where
  "type_error m = Exn TypeError m"

text \<open>\<^verbatim>\<open>d.get(k, default)\<close> on a dict.\<close>

definition dict_get :: "jobject \<Rightarrow> string \<Rightarrow> json \<Rightarrow> json" where
  "dict_get kvs k d = (case map_of kvs k of None \<Rightarrow> d | Some v \<Rightarrow> v)"

text \<open>\<^verbatim>\<open>v.get(k, default)\<close> on any value: only a dict has the method.\<close>

fun py_get :: "json \<Rightarrow> string \<Rightarrow> json \<Rightarrow> exn + json" where
  "py_get (JDict kvs) k d = Inr (dict_get kvs k d)"
| "py_get v k d = Inl (no_attribute v ''get'')"

text \<open>\<^verbatim>\<open>for x in v\<close>: a list yields its elements, a str its characters, a dict its keys.\<close>

fun py_iter :: "json \<Rightarrow> exn + json list" where
  "py_iter (JList xs) = Inr xs"
| "py_iter (JStr s) = Inr (map (\<lambda>c. JStr [c]) s)"
| "py_iter (JDict kvs) = Inr (map JStr (remdups (map fst kvs)))"
| "py_iter v =
     Inl (type_error ([CHR 0x27] @ type_name v @ [CHR 0x27] @ '' object is not iterable''))"

text \<open>\<^verbatim>\<open>len(v)\<close>.\<close>

fun py_len :: "json \<Rightarrow> exn + nat" where
  "py_len (JList xs) = Inr (length xs)"
| "py_len (JStr s) = Inr (length s)"
| "py_len (JDict kvs) = Inr (length (remdups (map fst kvs)))"
| "py_len v =
     Inl (type_error (''object of type '' @ [CHR 0x27] @ type_name v @ [CHR 0x27]
            @ '' has no len()''))"

text \<open>\<^verbatim>\<open>s in t\<close> on two strs: \<open>s\<close> occurs in \<open>t\<close> as a substring.\<close>

fun str_contains :: "string \<Rightarrow> string \<Rightarrow> bool" where
  "str_contains [] s = (s = [])"
| "str_contains (c # t) s = (take (length s) (c # t) = s \<or> str_contains t s)"

text \<open>
  \<^verbatim>\<open>s in v\<close> for a str \<open>s\<close>: a key of a dict, an element of a list (a str equals
  only a str), a substring of a str; any other value is not a container.
\<close>

fun py_in :: "string \<Rightarrow> json \<Rightarrow> exn + bool" where
  "py_in s (JDict kvs) = Inr (s \<in> set (map fst kvs))"
| "py_in s (JList xs) = Inr (JStr s \<in> set xs)"
| "py_in s (JStr t) = Inr (str_contains t s)"
| "py_in s v =
     Inl (type_error (''argument of type '' @ [CHR 0x27] @ type_name v @ [CHR 0x27]
            @ '' is not iterable''))"

text \<open>\<^verbatim>\<open>v[k]\<close> for a str \<open>k\<close>.\<close>

fun py_subscript :: "json \<Rightarrow> string \<Rightarrow> exn + json" where
  "py_subscript (JDict kvs) k =
     (case map_of kvs k of
        None \<Rightarrow> Inl (Exn KeyError ([CHR 0x27] @ k @ [CHR 0x27]))
      | Some v \<Rightarrow> Inr v)"
| "py_subscript (JStr s) k = Inl (type_error ''string indices must be integers'')"
| "py_subscript (JList xs) k = Inl (type_error ''list indices must be integers or slices, not str'')"
| "py_subscript v k =
     Inl (type_error ([CHR 0x27] @ type_name v @ [CHR 0x27] @ '' object is not subscriptable''))"

text \<open>
  The number a value compares as: \<^verbatim>\<open>True == 1\<close>, \<^verbatim>\<open>False == 0\<close>, an int and a float
  are compared by value.
\<close>

fun num_val :: "json \<Rightarrow> pyfloat option" where
  "num_val (JBool b) = Some (Finite (if b then 1 else 0))"
| "num_val (JInt i) = Some (Finite (of_int i))"
| "num_val (JFloat f) = Some f"
| "num_val v = None"

text \<open>
  \<^verbatim>\<open>v > 0\<close>: only numbers are ordered against an int, and NaN is above nothing.
\<close>

fun py_gt_zero :: "json \<Rightarrow> exn + bool" where
  "py_gt_zero v =
     (case num_val v of
        Some (Finite r) \<Rightarrow> Inr (0 < r)
      | Some PosInf \<Rightarrow> Inr True
      | Some NegInf \<Rightarrow> Inr False
      | Some NaN \<Rightarrow> Inr False
      | None \<Rightarrow>
          Inl (type_error ([CHR 0x27] @ ''>'' @ [CHR 0x27] @ '' not supported between instances of ''
                 @ [CHR 0x27] @ type_name v @ [CHR 0x27] @ '' and '' @ [CHR 0x27] @ ''int'' @ [CHR 0x27])))"

text \<open>\<^verbatim>\<open>v == 0\<close>: no value but a number equals \<open>0\<close>, and NaN equals nothing.\<close>

definition py_eq_zero :: "json \<Rightarrow> bool" where
  "py_eq_zero v = (num_val v = Some (Finite 0))"

text \<open>
  Membership in a \<^verbatim>\<open>set\<close>: the same object or an equal one. The NaN of
  \<^verbatim>\<open>json.loads\<close> is one object, so two of them are the same element.
\<close>

definition same_element :: "json \<Rightarrow> json \<Rightarrow> bool" where
  "same_element a b =
     (case num_val a of
        Some x \<Rightarrow> num_val b = Some x
      | None \<Rightarrow> num_val b = None \<and> a = b)"

text \<open>
  A \<^verbatim>\<open>set\<close> is the list of its elements in insertion order. \<^verbatim>\<open>s.add(v)\<close> raises
  on a list or a dict, which are unhashable.
\<close>

fun set_add :: "json list \<Rightarrow> json \<Rightarrow> exn + json list" where
  "set_add s (JList xs) = Inl (type_error (''unhashable type: '' @ [CHR 0x27] @ ''list'' @ [CHR 0x27]))"
| "set_add s (JDict kvs) = Inl (type_error (''unhashable type: '' @ [CHR 0x27] @ ''dict'' @ [CHR 0x27]))"
| "set_add s v = Inr (if \<exists>x \<in> set s. same_element x v then s else s @ [v])"

text \<open>\<^verbatim>\<open>a - b\<close> on two sets.\<close>

definition set_diff :: "json list \<Rightarrow> json list \<Rightarrow> json list" where
  "set_diff a b = filter (\<lambda>x. \<not> (\<exists>y \<in> set b. same_element y x)) a"

text \<open>\<^verbatim>\<open>ref.split('/')[-1]\<close>: what follows the last \<^verbatim>\<open>/\<close>, all of it if there is none.\<close>

definition last_segment :: "string \<Rightarrow> string" where
  "last_segment s = rev (takeWhile (\<lambda>c. c \<noteq> CHR ''/'') (rev s))"

text \<open>\<^verbatim>\<open>str(n)\<close> of a natural number, as an f-string prints it.\<close>

fun str_nat :: "nat \<Rightarrow> string" where
  "str_nat n =
     (if n < 10 then [''0123456789'' ! n]
      else str_nat (n div 10) @ [''0123456789'' ! (n mod 10)])"

declare str_nat.simps [simp del]

section \<open>The validation result\<close>

text \<open>
  The dicts \<^verbatim>\<open>_validate_fhir_response\<close> builds, with the keys it gives them. A key of
  \<^verbatim>\<open>data_quality\<close> that is absent is \<open>None\<close>; \<^verbatim>\<open>{}\<close> is \<open>empty_quality\<close>.
\<close>

record issue =
  severity :: json
  code :: json
  details :: json

record quality =
  total_resources :: "json option"
  returned_resources :: "nat option"
  has_next_page :: "bool option"
  resource_types :: "json list option"
  orphaned_patient_refs :: "nat option"

definition empty_quality :: quality where
  "empty_quality =
     \<lparr>total_resources = None, returned_resources = None, has_next_page = None,
      resource_types = None, orphaned_patient_refs = None\<rparr>"

record validation_result =
  is_valid :: bool
  issues :: "issue list"
  data_quality :: quality
  resource_type :: json

section \<open>\<^verbatim>\<open>_calculate_quality_score\<close>\<close>

text \<open>
  The score is a Python float. It starts at \<open>100.0\<close> and only integers are subtracted
  from it, so every intermediate value is an integer of small magnitude, which a double
  holds exactly: the arithmetic is that of \<open>real\<close>.

  The loop over \<^verbatim>\<open>validation["issues"]\<close>, with the running score:
\<close>

fun deduct_issues :: "real \<Rightarrow> issue list \<Rightarrow> real" where
  "deduct_issues score [] = score"
| "deduct_issues score (i # rest) =
     deduct_issues
       (if severity i = JStr ''error'' then score - 30
        else if severity i = JStr ''warning'' then score - 10
        else score)
       rest"

definition calculate_quality_score :: "validation_result \<Rightarrow> real" where
  "calculate_quality_score validation =
     (if \<not> is_valid validation then 0
      else
        let score = deduct_issues 100 (issues validation);
            quality = data_quality validation;
            score = (if (case orphaned_patient_refs quality of None \<Rightarrow> 0 | Some n \<Rightarrow> n) > 0
                     then score - 20 else score);
            score = (if py_eq_zero (case total_resources quality of None \<Rightarrow> JInt 0 | Some t \<Rightarrow> t)
                     then score - 50 else score)
        in max 0 score)"

section \<open>\<^verbatim>\<open>_validate_fhir_response\<close>\<close>

text \<open>
  The body of the loop over an OperationOutcome's issues: the dict it appends. Each
  \<^verbatim>\<open>.get\<close> raises \<^verbatim>\<open>AttributeError\<close> on a value that is not a dict.
\<close>

definition copy_issue :: "json \<Rightarrow> exn + issue" where
  "copy_issue issue =
     and_then (py_get issue ''severity'' (JStr ''unknown'')) (\<lambda>sev.
     and_then (py_get issue ''code'' (JStr ''unknown'')) (\<lambda>cd.
     and_then (py_get issue ''details'' (JDict [])) (\<lambda>d.
     and_then (py_get d ''text'' (JStr ''No details'')) (\<lambda>t.
       Inr \<lparr>severity = sev, code = cd, details = t\<rparr>))))"

fun copy_issues :: "issue list \<Rightarrow> json list \<Rightarrow> exn + issue list" where
  "copy_issues acc [] = Inr acc"
| "copy_issues acc (issue # rest) =
     and_then (copy_issue issue) (\<lambda>c. copy_issues (acc @ [c]) rest)"

text \<open>
  \<^verbatim>\<open>any(link.get('relation') == 'next' for link in links)\<close>: \<^verbatim>\<open>any\<close> stops at the
  first link that matches, so a later link is not looked at.
\<close>

fun any_next :: "json list \<Rightarrow> exn + bool" where
  "any_next [] = Inr False"
| "any_next (link # rest) =
     and_then (py_get link ''relation'' JNull) (\<lambda>r.
       if r = JStr ''next'' then Inr True else any_next rest)"

text \<open>
  \<^verbatim>\<open>set(entry.get('resource', {}).get('resourceType') for entry in entries if 'resource' in entry)\<close>,
  the set built one element at a time. \<^verbatim>\<open>list(...)\<close> of it is given in insertion
  order; CPython enumerates a set in an order of its own, and nothing below reads the
  order.
\<close>

fun collect_types :: "json list \<Rightarrow> json list \<Rightarrow> exn + json list" where
  "collect_types s [] = Inr s"
| "collect_types s (entry # rest) =
     and_then (py_in ''resource'' entry) (\<lambda>has_resource.
       if \<not> has_resource then collect_types s rest
       else
         and_then (py_get entry ''resource'' (JDict [])) (\<lambda>resource.
         and_then (py_get resource ''resourceType'' JNull) (\<lambda>t.
         and_then (set_add s t) (\<lambda>s'. collect_types s' rest))))"

text \<open>
  The \<^verbatim>\<open>elif\<close> branch of the loop over the entries: the reference of a resource
  that is not a Patient, added to \<^verbatim>\<open>patient_refs\<close> when it holds a \<^verbatim>\<open>/\<close>.
  \<^verbatim>\<open>ref.split\<close> raises on a list or a dict that holds \<^verbatim>\<open>'/'\<close>.
\<close>

definition add_subject_ref :: "json list \<Rightarrow> json \<Rightarrow> exn + json list" where
  "add_subject_ref patient_refs resource =
     and_then (py_in ''subject'' resource) (\<lambda>has_subject.
       if \<not> has_subject then Inr patient_refs
       else
         and_then (py_subscript resource ''subject'') (\<lambda>subject.
         and_then (py_in ''reference'' subject) (\<lambda>has_reference.
           if \<not> has_reference then Inr patient_refs
           else
             and_then (py_subscript subject ''reference'') (\<lambda>ref.
             and_then (py_in ''/'' ref) (\<lambda>has_slash.
               if \<not> has_slash then Inr patient_refs
               else
                 (case ref of
                    JStr r \<Rightarrow> set_add patient_refs (JStr (last_segment r))
                  | _ \<Rightarrow> Inl (no_attribute ref ''split'')))))))"

text \<open>The loop over the entries, with the two sets it fills.\<close>

fun scan_entries ::
  "json list \<Rightarrow> json list \<Rightarrow> json list \<Rightarrow> exn + (json list \<times> json list)" where
  "scan_entries patient_refs actual_patients [] = Inr (patient_refs, actual_patients)"
| "scan_entries patient_refs actual_patients (entry # rest) =
     and_then (py_get entry ''resource'' (JDict [])) (\<lambda>resource.
     and_then (py_get resource ''resourceType'' JNull) (\<lambda>rtype.
       if rtype = JStr ''Patient'' then
         and_then (py_get resource ''id'' JNull) (\<lambda>i.
         and_then (set_add actual_patients i) (\<lambda>actual_patients'.
           scan_entries patient_refs actual_patients' rest))
       else
         and_then (add_subject_ref patient_refs resource) (\<lambda>patient_refs'.
           scan_entries patient_refs' actual_patients rest)))"

definition orphan_issue :: "nat \<Rightarrow> issue" where
  "orphan_issue n =
     \<lparr>severity = JStr ''warning'', code = JStr ''orphaned-references'',
      details = JStr (''Found '' @ str_nat n @ '' orphaned patient references'')\<rparr>"

text \<open>
  The end of the Bundle branch: the issue and the count, once the two sets are known.
\<close>

definition check_orphans ::
  "validation_result \<Rightarrow> json list \<Rightarrow> json list \<Rightarrow> validation_result" where
  "check_orphans validation_result patient_refs actual_patients =
     (if patient_refs \<noteq> [] \<and> actual_patients \<noteq> [] then
        let orphaned = set_diff patient_refs actual_patients in
        if orphaned \<noteq> [] then
          validation_result
            \<lparr>issues := issues validation_result @ [orphan_issue (length orphaned)],
             data_quality := (data_quality validation_result)
                \<lparr>orphaned_patient_refs := Some (length orphaned)\<rparr>\<rparr>
        else validation_result
      else validation_result)"

text \<open>The Bundle branch.\<close>

definition validate_bundle :: "jobject \<Rightarrow> validation_result \<Rightarrow> exn + validation_result" where
  "validate_bundle response validation_result =
     (let entries = dict_get response ''entry'' (JList []);
          total = dict_get response ''total'' (JInt 0)
      in
      and_then (py_len entries) (\<lambda>returned.
      and_then (py_iter (dict_get response ''link'' (JList []))) (\<lambda>links.
      and_then (any_next links) (\<lambda>has_next.
      and_then (py_iter entries) (\<lambda>items.
      and_then (collect_types [] items) (\<lambda>types.
      and_then (scan_entries [] [] items) (\<lambda>(patient_refs, actual_patients).
        Inr (check_orphans
               (validation_result
                  \<lparr>data_quality :=
                     \<lparr>total_resources = Some total, returned_resources = Some returned,
                      has_next_page = Some has_next, resource_types = Some types,
                      orphaned_patient_refs = None\<rparr>\<rparr>)
               patient_refs actual_patients))))))))"

text \<open>
  \<^verbatim>\<open>_validate_fhir_response\<close>. Its argument is a dict (\<^verbatim>\<open>Dict[str, Any]\<close>); everything
  below the top level is whatever the server sent.
\<close>

definition validate_fhir_response :: "jobject \<Rightarrow> exn + validation_result" where
  "validate_fhir_response response =
     (let validation_result =
            \<lparr>is_valid = True, issues = [], data_quality = empty_quality,
             resource_type = dict_get response ''resourceType'' (JStr ''Unknown'')\<rparr>
      in
      if dict_get response ''resourceType'' JNull = JStr ''OperationOutcome'' then
        and_then (py_iter (dict_get response ''issue'' (JList []))) (\<lambda>items.
        and_then (copy_issues (issues validation_result) items) (\<lambda>copied.
          Inr (validation_result\<lparr>is_valid := False, issues := copied\<rparr>)))
      else if dict_get response ''resourceType'' JNull = JStr ''Bundle'' then
        validate_bundle response validation_result
      else Inr validation_result)"

section \<open>\<^verbatim>\<open>_make_request\<close>\<close>

text \<open>
  What lies outside the repository is a parameter: \<^verbatim>\<open>urllib.parse.urljoin\<close>, which
  raises \<^verbatim>\<open>ValueError\<close> on some strings, the HTTP client, whose \<^verbatim>\<open>request\<close> returns a
  response or raises, and the clock. A response is its status code, what
  \<^verbatim>\<open>raise_for_status()\<close> does with it (\<open>None\<close>: it returns) and what \<^verbatim>\<open>json()\<close>
  returns or raises. Only subclasses of \<^verbatim>\<open>Exception\<close> are exceptions here; the
  cancellation of the task is not.
\<close>

record response =
  status_code :: int
  raise_for_status :: "exn option"
  json_of :: "exn + json"

record world =
  urljoin :: "string \<Rightarrow> string \<Rightarrow> exn + string"
  request :: "string \<Rightarrow> string \<Rightarrow> (string \<times> string) list \<Rightarrow> jobject \<Rightarrow> exn + response"
  now_isoformat :: string

record fhir_client =
  base_url :: string
  auth_token :: "string option"

definition get_headers :: "fhir_client \<Rightarrow> (string \<times> string) list" where
  "get_headers self =
     (let headers = [(''Accept'', ''application/fhir+json''),
                     (''Content-Type'', ''application/fhir+json'')]
      in case auth_token self of
           None \<Rightarrow> headers
         | Some t \<Rightarrow>
             if t = [] then headers
             else AList.update ''Authorization'' (''Bearer '' @ t) headers)"

text \<open>The OperationOutcome dict each failure path returns.\<close>

definition operation_outcome :: "string \<Rightarrow> string \<Rightarrow> string \<Rightarrow> jobject" where
  "operation_outcome sev cd text =
     [(''resourceType'', JStr ''OperationOutcome''),
      (''issue'', JList [JDict [(''severity'', JStr sev), (''code'', JStr cd),
                                (''details'', JDict [(''text'', JStr text)])]])]"

text \<open>
  The inner \<^verbatim>\<open>try\<close>: the body is read as JSON and \<^verbatim>\<open>result.get\<close> is called on it for
  the log line, which raises on a body that is not an object. Only a
  \<^verbatim>\<open>JSONDecodeError\<close> is caught here.
\<close>

definition read_json :: "response \<Rightarrow> exn + jobject" where
  "read_json resp =
     try_except
       (and_then (json_of resp) (\<lambda>result.
          case result of
            JDict kvs \<Rightarrow> Inr kvs
          | _ \<Rightarrow> Inl (no_attribute result ''get'')))
       (\<lambda>e. if isinstance_JSONDecodeError e
             then Inr (operation_outcome ''error'' ''invalid''
                         (''Invalid JSON response: '' @ str_of e))
             else Inl e)"

text \<open>The body of the outer \<^verbatim>\<open>try\<close>.\<close>

definition send_request ::
  "world \<Rightarrow> string \<Rightarrow> string \<Rightarrow> (string \<times> string) list \<Rightarrow> string \<Rightarrow> jobject \<Rightarrow> exn + jobject" where
  "send_request w method url headers endpoint kwargs =
     and_then (request w method url headers kwargs) (\<lambda>resp.
       if status_code resp = 404 then
         Inr (operation_outcome ''error'' ''not-found'' (''Resource not found: '' @ endpoint))
       else if status_code resp = 401 then
         Inr (operation_outcome ''error'' ''security'' ''Authentication required'')
       else if status_code resp = 403 then
         Inr (operation_outcome ''error'' ''forbidden'' ''Access forbidden'')
       else
         (case raise_for_status resp of
            Some e \<Rightarrow> Inl e
          | None \<Rightarrow> read_json resp))"

definition make_request ::
  "world \<Rightarrow> fhir_client \<Rightarrow> string \<Rightarrow> string \<Rightarrow> jobject \<Rightarrow> exn + jobject" where
  "make_request w self method endpoint kwargs =
     and_then (urljoin w (base_url self @ ''/'') endpoint) (\<lambda>url.
       let headers = get_headers self in
       try_except (send_request w method url headers endpoint kwargs)
         (\<lambda>e. if isinstance_TimeoutException e then
                 Inr (operation_outcome ''error'' ''timeout'' ''Request timed out'')
               else if isinstance_HTTPError e then
                 Inr (operation_outcome ''error'' ''exception'' (''HTTP error: '' @ str_of e))
               else
                 Inr (operation_outcome ''error'' ''exception''
                        (''Unexpected error: '' @ str_of e))))"

section \<open>\<^verbatim>\<open>assess_data_quality\<close>\<close>

text \<open>
  The dict stored for one resource type: the \<^verbatim>\<open>try\<close> branch gives it the keys
  \<^verbatim>\<open>accessible\<close>, \<^verbatim>\<open>total_available\<close>, \<^verbatim>\<open>issues\<close> (here \<open>issues_found\<close>) and
  \<^verbatim>\<open>data_quality_score\<close>, the \<^verbatim>\<open>except\<close> branch \<^verbatim>\<open>accessible\<close>, \<^verbatim>\<open>error\<close> and
  \<^verbatim>\<open>data_quality_score\<close>. A key that is absent is \<open>None\<close>.
\<close>

record resource_assessment =
  accessible :: bool
  total_available :: "json option"
  issues_found :: "issue list option"
  data_quality_score :: real
  error :: "string option"

record assessment =
  server_url :: string
  timestamp :: string
  resource_assessments :: "(string \<times> resource_assessment) list"

text \<open>
  The argument \<^verbatim>\<open>resource_type\<close> is \<open>requested\<close>; \<^verbatim>\<open>not resource_type\<close> holds of
  \<^verbatim>\<open>None\<close> and of the empty string.
\<close>

definition test_resources :: "string option \<Rightarrow> string list" where
  "test_resources requested =
     (case requested of
        None \<Rightarrow> [''Patient'', ''Observation'', ''Condition'', ''MedicationRequest'']
      | Some r \<Rightarrow>
          if r = [] then [''Patient'', ''Observation'', ''Condition'', ''MedicationRequest'']
          else [r])"

text \<open>The body of the \<^verbatim>\<open>try\<close> in the loop, and the loop with its \<^verbatim>\<open>except\<close> clause.\<close>

definition assess_resource :: "world \<Rightarrow> fhir_client \<Rightarrow> string \<Rightarrow> exn + resource_assessment" where
  "assess_resource w self resource =
     and_then (make_request w self ''GET'' resource [(''_count'', JInt 10)]) (\<lambda>result.
     and_then (validate_fhir_response result) (\<lambda>validation.
       Inr \<lparr>accessible = is_valid validation,
            total_available =
              Some (case total_resources (data_quality validation) of
                      None \<Rightarrow> JInt 0 | Some t \<Rightarrow> t),
            issues_found = Some (issues validation),
            data_quality_score = calculate_quality_score validation,
            error = None\<rparr>))"

fun assess_loop ::
  "world \<Rightarrow> fhir_client \<Rightarrow> (string \<times> resource_assessment) list \<Rightarrow> string list
     \<Rightarrow> exn + (string \<times> resource_assessment) list" where
  "assess_loop w self assessments [] = Inr assessments"
| "assess_loop w self assessments (resource # rest) =
     and_then
       (try_except
          (and_then (assess_resource w self resource) (\<lambda>r.
             Inr (AList.update resource r assessments)))
          (\<lambda>e. Inr (AList.update resource
                       \<lparr>accessible = False, total_available = None, issues_found = None,
                        data_quality_score = 0, error = Some (str_of e)\<rparr>
                       assessments)))
       (\<lambda>assessments'. assess_loop w self assessments' rest)"

definition assess_data_quality :: "world \<Rightarrow> fhir_client \<Rightarrow> string option \<Rightarrow> exn + assessment" where
  "assess_data_quality w self requested =
     and_then (assess_loop w self [] (test_resources requested)) (\<lambda>assessments.
       Inr \<lparr>server_url = base_url self, timestamp = now_isoformat w,
            resource_assessments = assessments\<rparr>)"

section \<open>The average in \<^verbatim>\<open>handle_call_tool\<close>\<close>

text \<open>
  The branch for the tool \<^verbatim>\<open>assess_data_quality\<close> formats one block of lines for each
  resource type and sums the scores of the accessible ones. The lines are not
  modelled, only what reading the dict for them can raise: a missing key, and
  \<^verbatim>\<open>issue['severity'].upper()\<close> on a severity that is not a str. The average is the
  quotient of the sum by the count, which Python rounds to a double.
\<close>

fun format_issues :: "issue list \<Rightarrow> exn + unit" where
  "format_issues [] = Inr ()"
| "format_issues (i # rest) =
     (case severity i of
        JStr s \<Rightarrow> format_issues rest
      | v \<Rightarrow> Inl (no_attribute v ''upper''))"

fun sum_scores ::
  "real \<Rightarrow> nat \<Rightarrow> (string \<times> resource_assessment) list \<Rightarrow> exn + (real \<times> nat)" where
  "sum_scores overall_score resource_count [] = Inr (overall_score, resource_count)"
| "sum_scores overall_score resource_count ((resource, data) # rest) =
     (if accessible data then
        (case total_available data of
           None \<Rightarrow> Inl (Exn KeyError ([CHR 0x27] @ ''total_available'' @ [CHR 0x27]))
         | Some available \<Rightarrow>
             (case issues_found data of
                None \<Rightarrow> Inl (Exn KeyError ([CHR 0x27] @ ''issues'' @ [CHR 0x27]))
              | Some found \<Rightarrow>
                  and_then (format_issues found) (\<lambda>u.
                    sum_scores (overall_score + data_quality_score data)
                      (resource_count + 1) rest)))
      else sum_scores overall_score resource_count rest)"

definition overall_average :: "assessment \<Rightarrow> exn + real option" where
  "overall_average a =
     and_then (sum_scores 0 0 (resource_assessments a)) (\<lambda>(overall_score, resource_count).
       Inr (if resource_count > 0 then Some (overall_score / real resource_count) else None))"

section \<open>Notions the properties are stated with\<close>

text \<open>The number of issues of one severity.\<close>

definition count_severity :: "string \<Rightarrow> issue list \<Rightarrow> nat" where
  "count_severity s xs = length (filter (\<lambda>i. severity i = JStr s) xs)"

text \<open>
  \<^verbatim>\<open>total_resources\<close> is zero: the key is absent, so that the default \<open>0\<close> is read, or
  its value equals \<open>0\<close>.
\<close>

definition total_is_zero :: "quality \<Rightarrow> bool" where
  "total_is_zero q = (case total_resources q of None \<Rightarrow> True | Some t \<Rightarrow> py_eq_zero t)"

text \<open>\<^verbatim>\<open>orphaned_patient_refs\<close> is present and positive.\<close>

definition has_orphans :: "quality \<Rightarrow> bool" where
  "has_orphans q = (case orphaned_patient_refs q of None \<Rightarrow> False | Some n \<Rightarrow> 0 < n)"

text \<open>The field of an object, or the default when the key is absent.\<close>

fun field_or :: "json \<Rightarrow> string \<Rightarrow> json \<Rightarrow> json" where
  "field_or (JDict kvs) k d = dict_get kvs k d"
| "field_or v k d = d"

fun is_object :: "json \<Rightarrow> bool" where
  "is_object (JDict kvs) = True"
| "is_object v = False"

text \<open>
  What the validation result holds for one issue of an OperationOutcome: its severity
  and code, \<^verbatim>\<open>unknown\<close> when missing, and the text of its details, \<^verbatim>\<open>No details\<close>
  when missing.
\<close>

definition copied_issue :: "json \<Rightarrow> issue" where
  "copied_issue i =
     \<lparr>severity = field_or i ''severity'' (JStr ''unknown''),
      code = field_or i ''code'' (JStr ''unknown''),
      details = field_or (field_or i ''details'' (JDict [])) ''text'' (JStr ''No details'')\<rparr>"

text \<open>
  The shape of an OperationOutcome: each issue is an object, and so is its
  \<^verbatim>\<open>details\<close> when it has one.
\<close>

definition issue_shaped :: "json \<Rightarrow> bool" where
  "issue_shaped i = (is_object i \<and> is_object (field_or i ''details'' (JDict [])))"

definition outcome_shaped :: "jobject \<Rightarrow> bool" where
  "outcome_shaped doc =
     (case py_iter (dict_get doc ''issue'' (JList [])) of
        Inl e \<Rightarrow> False
      | Inr items \<Rightarrow> list_all issue_shaped items)"

text \<open>
  Two OperationOutcome documents: the one \<^verbatim>\<open>_make_request\<close> builds for a 404, followed
  by an issue with no field at all; and one whose \<^verbatim>\<open>details\<close> is the text itself
  instead of an object holding it.
\<close>

definition outcome_404 :: jobject where
  "outcome_404 =
     [(''resourceType'', JStr ''OperationOutcome''),
      (''issue'',
       JList [JDict [(''severity'', JStr ''error''), (''code'', JStr ''not-found''),
                     (''details'', JDict [(''text'', JStr ''Resource not found: Patient'')])],
              JDict []])]"

definition outcome_text_details :: jobject where
  "outcome_text_details =
     [(''resourceType'', JStr ''OperationOutcome''),
      (''issue'',
       JList [JDict [(''severity'', JStr ''error''), (''code'', JStr ''processing''),
                     (''details'', JStr ''Server error'')]])]"

subsection \<open>Bundles\<close>

text \<open>
  The entries of a Bundle, the resource an entry wraps, and the two sets the orphan
  check compares: the ids of the entries whose resource is a Patient (an absent id is
  \<^verbatim>\<open>None\<close>), and the ids referenced by the other entries, an entry referencing an id
  when its \<^verbatim>\<open>subject.reference\<close> is a string that holds a \<^verbatim>\<open>/\<close>, the id being what
  follows the last one. \<open>claimed_referenced_ids\<close> is the second set taken over every
  entry, Patient entries included.
\<close>

definition entries_of :: "jobject \<Rightarrow> json list" where
  "entries_of doc =
     (case py_iter (dict_get doc ''entry'' (JList [])) of Inl e \<Rightarrow> [] | Inr items \<Rightarrow> items)"

definition resource_of :: "json \<Rightarrow> json" where
  "resource_of entry = field_or entry ''resource'' (JDict [])"

definition is_patient :: "json \<Rightarrow> bool" where
  "is_patient entry = (field_or (resource_of entry) ''resourceType'' JNull = JStr ''Patient'')"

definition patient_id :: "json \<Rightarrow> json" where
  "patient_id entry = field_or (resource_of entry) ''id'' JNull"

definition actual_patient_ids :: "json list \<Rightarrow> json set" where
  "actual_patient_ids entries = set (map patient_id (filter is_patient entries))"

definition referenced_id_of :: "json \<Rightarrow> json option" where
  "referenced_id_of resource =
     (case field_or (field_or resource ''subject'' JNull) ''reference'' JNull of
        JStr r \<Rightarrow> if CHR ''/'' \<in> set r then Some (JStr (last_segment r)) else None
      | _ \<Rightarrow> None)"

definition referenced_id :: "json \<Rightarrow> json option" where
  "referenced_id entry = referenced_id_of (resource_of entry)"

definition referenced_patient_ids :: "json list \<Rightarrow> json set" where
  "referenced_patient_ids entries =
     set (List.map_filter referenced_id (filter (\<lambda>e. \<not> is_patient e) entries))"

definition claimed_referenced_ids :: "json list \<Rightarrow> json set" where
  "claimed_referenced_ids entries = set (List.map_filter referenced_id entries)"

text \<open>
  The shape of a Bundle: \<^verbatim>\<open>entry\<close> and \<^verbatim>\<open>link\<close> are lists of objects when present;
  the resource of an entry is an object whose \<^verbatim>\<open>resourceType\<close> is not a list or an
  object; the \<^verbatim>\<open>id\<close> of a Patient is not a list or an object; the \<^verbatim>\<open>subject\<close> of
  another resource, when present, is an object whose \<^verbatim>\<open>reference\<close>, when present, is
  a string.
\<close>

fun is_scalar :: "json \<Rightarrow> bool" where
  "is_scalar (JList xs) = False"
| "is_scalar (JDict kvs) = False"
| "is_scalar v = True"

fun is_str :: "json \<Rightarrow> bool" where
  "is_str (JStr s) = True"
| "is_str v = False"

definition subject_shaped :: "json \<Rightarrow> bool" where
  "subject_shaped resource =
     (case resource of
        JDict kvs \<Rightarrow>
          (case map_of kvs ''subject'' of
             None \<Rightarrow> True
           | Some (JDict s) \<Rightarrow> (case map_of s ''reference'' of None \<Rightarrow> True | Some r \<Rightarrow> is_str r)
           | Some _ \<Rightarrow> False)
      | _ \<Rightarrow> False)"

definition entry_shaped :: "json \<Rightarrow> bool" where
  "entry_shaped entry =
     (is_object entry \<and> is_object (resource_of entry)
      \<and> is_scalar (field_or (resource_of entry) ''resourceType'' JNull)
      \<and> (if is_patient entry then is_scalar (patient_id entry)
         else subject_shaped (resource_of entry)))"

definition bundle_shaped :: "jobject \<Rightarrow> bool" where
  "bundle_shaped doc =
     ((case dict_get doc ''entry'' (JList []) of
         JList es \<Rightarrow> list_all entry_shaped es | _ \<Rightarrow> False)
      \<and> (case dict_get doc ''link'' (JList []) of
           JList ls \<Rightarrow> list_all is_object ls | _ \<Rightarrow> False))"

text \<open>Bundles the properties are tried on.\<close>

definition patient_entry :: "string \<Rightarrow> json" where
  "patient_entry i =
     JDict [(''resource'', JDict [(''resourceType'', JStr ''Patient''), (''id'', JStr i)])]"

definition observation_entry :: "json \<Rightarrow> json" where
  "observation_entry ref =
     JDict [(''resource'',
             JDict [(''resourceType'', JStr ''Observation''),
                    (''subject'', JDict [(''reference'', ref)])])]"

definition bundle_of :: "json list \<Rightarrow> jobject" where
  "bundle_of entries =
     [(''resourceType'', JStr ''Bundle''), (''total'', JInt 2), (''entry'', JList entries)]"

definition bundle_orphan :: jobject where
  "bundle_orphan = bundle_of [patient_entry ''1'', observation_entry (JStr ''Patient/2'')]"

definition bundle_no_patient :: jobject where
  "bundle_no_patient = bundle_of [observation_entry (JStr ''Patient/99'')]"

definition bundle_patient_subject :: jobject where
  "bundle_patient_subject =
     bundle_of [JDict [(''resource'',
                       JDict [(''resourceType'', JStr ''Patient''), (''id'', JStr ''1''),
                              (''subject'', JDict [(''reference'', JStr ''Patient/2'')])])]]"

definition bundle_null_reference :: jobject where
  "bundle_null_reference =
     bundle_of [patient_entry ''1'', observation_entry (JStr ''Patient/2''),
                observation_entry JNull]"

definition bundle_linked :: jobject where
  "bundle_linked = bundle_of [patient_entry ''1'', observation_entry (JStr ''Patient/1'')]"

subsection \<open>The gateway and the assessment\<close>


text \<open>The dict the \<^verbatim>\<open>except\<close> clause of \<^verbatim>\<open>assess_data_quality\<close> stores.\<close>

definition failed_record :: "exn \<Rightarrow> resource_assessment" where
  "failed_record e =
     \<lparr>accessible = False, total_available = None, issues_found = None,
      data_quality_score = 0, error = Some (str_of e)\<rparr>"

text \<open>What the loop stores for one resource type, by either branch.\<close>

definition resource_record :: "world \<Rightarrow> fhir_client \<Rightarrow> string \<Rightarrow> resource_assessment" where
  "resource_record w self r =
     (case assess_resource w self r of Inl e \<Rightarrow> failed_record e | Inr d \<Rightarrow> d)"

text \<open>
  What assessing one resource type gives: the dict of the \<^verbatim>\<open>except\<close> clause when the
  request for a sample of that type, or the validation of what it returned, raises;
  otherwise the validity, total, issues and score of the validated document.
\<close>

definition category_record :: "world \<Rightarrow> fhir_client \<Rightarrow> string \<Rightarrow> resource_assessment" where
  "category_record w self r =
     (case make_request w self ''GET'' r [(''_count'', JInt 10)] of
        Inl e \<Rightarrow> failed_record e
      | Inr doc \<Rightarrow>
          (case validate_fhir_response doc of
             Inl e \<Rightarrow> failed_record e
           | Inr v \<Rightarrow>
               \<lparr>accessible = is_valid v,
                total_available =
                  Some (case total_resources (data_quality v) of None \<Rightarrow> JInt 0 | Some t \<Rightarrow> t),
                issues_found = Some (issues v),
                data_quality_score = calculate_quality_score v,
                error = None\<rparr>))"

text \<open>
  A stored dict can be formatted: if it is accessible it has the keys
  \<^verbatim>\<open>total_available\<close> and \<^verbatim>\<open>issues\<close>, and every severity is a string.
\<close>

definition record_ok :: "resource_assessment \<Rightarrow> bool" where
  "record_ok d =
     (accessible d \<longrightarrow>
        total_available d \<noteq> None
        \<and> (\<exists>found. issues_found d = Some found \<and> list_all (\<lambda>i. is_str (severity i)) found))"

text \<open>The dicts of an assessment that are accessible, in order.\<close>

definition accessible_records :: "assessment \<Rightarrow> resource_assessment list" where
  "accessible_records a = filter accessible (map snd (resource_assessments a))"

text \<open>
  Worlds the properties are tried on. \<open>plain_urljoin\<close> is \<^verbatim>\<open>urljoin\<close> on the two
  arguments used below: a relative path is appended to a base that ends in \<^verbatim>\<open>/\<close>, and
  \<^verbatim>\<open>//[\<close>, a network location with an unmatched bracket, raises \<^verbatim>\<open>ValueError\<close>. In
  \<open>world_refused\<close> no connection can be made; in \<open>world_500\<close> every request is answered
  with status 500 and in \<open>world_404\<close> with status 404; in \<open>world_patients_only\<close> the
  search for Patient returns the Bundle \<open>bundle_linked\<close> and every other request 404.
\<close>

definition plain_urljoin :: "string \<Rightarrow> string \<Rightarrow> exn + string" where
  "plain_urljoin base url =
     (if url = ''//['' then Inl (Exn ValueError ''Invalid IPv6 URL'') else Inr (base @ url))"

definition test_client :: fhir_client where
  "test_client = \<lparr>base_url = ''https://hapi.fhir.org/baseR4'', auth_token = None\<rparr>"



definition not_found_response :: response where
  "not_found_response =
     \<lparr>status_code = 404,
      raise_for_status = Some (Exn HTTPStatusError ''Client error 404 Not Found''),
      json_of = Inl (Exn JSONDecodeError ''Expecting value'')\<rparr>"

definition world_404 :: world where
  "world_404 =
     \<lparr>urljoin = plain_urljoin,
      request = (\<lambda>method url headers kwargs. Inr not_found_response),
      now_isoformat = ''2024-01-01T00:00:00''\<rparr>"

definition world_patients_only :: world where
  "world_patients_only =
     \<lparr>urljoin = plain_urljoin,
      request = (\<lambda>method url headers kwargs.
                   if url = ''https://hapi.fhir.org/baseR4/Patient''
                   then Inr \<lparr>status_code = 200, raise_for_status = None,
                             json_of = Inr (JDict bundle_linked)\<rparr>
                   else Inr not_found_response),
      now_isoformat = ''2024-01-01T00:00:00''\<rparr>"

section \<open>Properties of the score\<close>

lemma deduct_issues_closed:
  "deduct_issues s xs =
     s - 30 * real (count_severity ''error'' xs) - 10 * real (count_severity ''warning'' xs)"
  by (induction xs arbitrary: s) (auto simp: count_severity_def)

text \<open>
  C1. The score of a valid result is \<open>100\<close> less \<open>30\<close> for each issue of severity
  \<^verbatim>\<open>error\<close>, less \<open>10\<close> for each issue of severity \<^verbatim>\<open>warning\<close> (an issue of any other
  severity counts in neither term), less \<open>20\<close> when \<^verbatim>\<open>orphaned_patient_refs\<close> is
  positive, less \<open>50\<close> when \<^verbatim>\<open>total_resources\<close> is zero, and never below \<open>0\<close>.
\<close>

theorem quality_score_deductions:
  assumes "is_valid v"
  shows "calculate_quality_score v =
           max 0 (100 - 30 * real (count_severity ''error'' (issues v))
                      - 10 * real (count_severity ''warning'' (issues v))
                      - (if has_orphans (data_quality v) then 20 else 0)
                      - (if total_is_zero (data_quality v) then 50 else 0))"
  using assms
  by (auto simp: calculate_quality_score_def deduct_issues_closed has_orphans_def
        total_is_zero_def py_eq_zero_def Let_def split: option.splits)

text \<open>One warning and a total of zero: the score is \<open>100 - 10 - 50 = 40\<close>.\<close>

theorem quality_score_deductions_witness:
  "is_valid
     \<lparr>is_valid = True,
      issues = [\<lparr>severity = JStr ''warning'', code = JStr ''orphaned-references'',
                 details = JStr ''Found 1 orphaned patient references''\<rparr>],
      data_quality = empty_quality\<lparr>total_resources := Some (JInt 0)\<rparr>,
      resource_type = JStr ''Bundle''\<rparr>
   \<and> calculate_quality_score
     \<lparr>is_valid = True,
      issues = [\<lparr>severity = JStr ''warning'', code = JStr ''orphaned-references'',
                 details = JStr ''Found 1 orphaned patient references''\<rparr>],
      data_quality = empty_quality\<lparr>total_resources := Some (JInt 0)\<rparr>,
      resource_type = JStr ''Bundle''\<rparr> = 40"
  using quality_score_deductions [of
     "\<lparr>is_valid = True,
      issues = [\<lparr>severity = JStr ''warning'', code = JStr ''orphaned-references'',
                 details = JStr ''Found 1 orphaned patient references''\<rparr>],
      data_quality = empty_quality\<lparr>total_resources := Some (JInt 0)\<rparr>,
      resource_type = JStr ''Bundle''\<rparr>"]
  by (simp add: count_severity_def has_orphans_def total_is_zero_def empty_quality_def
        py_eq_zero_def)

section \<open>Properties of the validation\<close>

text \<open>
  C10. A document that is neither an OperationOutcome nor a Bundle is valid, with no
  issue and an empty \<^verbatim>\<open>data_quality\<close>, and its score is \<open>50\<close>: the total is read as
  \<open>0\<close> from the empty dict.
\<close>

theorem other_document_scores_50:
  assumes "dict_get response ''resourceType'' JNull \<noteq> JStr ''OperationOutcome''"
      and "dict_get response ''resourceType'' JNull \<noteq> JStr ''Bundle''"
  shows "validate_fhir_response response =
           Inr \<lparr>is_valid = True, issues = [], data_quality = empty_quality,
                resource_type = dict_get response ''resourceType'' (JStr ''Unknown'')\<rparr>
         \<and> calculate_quality_score
             \<lparr>is_valid = True, issues = [], data_quality = empty_quality,
              resource_type = dict_get response ''resourceType'' (JStr ''Unknown'')\<rparr> = 50"
  using assms
  by (simp add: validate_fhir_response_def calculate_quality_score_def empty_quality_def
        py_eq_zero_def)

text \<open>A single Patient resource.\<close>

theorem other_document_scores_50_witness:
  "dict_get [(''resourceType'', JStr ''Patient''), (''id'', JStr ''1'')] ''resourceType'' JNull
     \<noteq> JStr ''OperationOutcome''
   \<and> dict_get [(''resourceType'', JStr ''Patient''), (''id'', JStr ''1'')] ''resourceType'' JNull
     \<noteq> JStr ''Bundle''
   \<and> validate_fhir_response [(''resourceType'', JStr ''Patient''), (''id'', JStr ''1'')] =
       Inr \<lparr>is_valid = True, issues = [], data_quality = empty_quality,
            resource_type = JStr ''Patient''\<rparr>
   \<and> calculate_quality_score
       \<lparr>is_valid = True, issues = [], data_quality = empty_quality,
        resource_type = JStr ''Patient''\<rparr> = 50"
  using other_document_scores_50 [of "[(''resourceType'', JStr ''Patient''), (''id'', JStr ''1'')]"]
  by (simp add: dict_get_def)

subsection \<open>OperationOutcome documents\<close>

lemma py_get_object: "is_object v \<Longrightarrow> py_get v k d = Inr (field_or v k d)"
  by (cases v) simp_all

lemma py_get_not_object: "\<not> is_object v \<Longrightarrow> py_get v k d = Inl (no_attribute v ''get'')"
  by (cases v) simp_all

lemma copy_issue_shaped: "issue_shaped i \<Longrightarrow> copy_issue i = Inr (copied_issue i)"
  by (simp add: issue_shaped_def copy_issue_def copied_issue_def and_then_def py_get_object)

lemma copy_issue_unshaped: "\<not> issue_shaped i \<Longrightarrow> \<exists>e. copy_issue i = Inl e"
  by (cases "is_object i")
     (auto simp: issue_shaped_def copy_issue_def and_then_def py_get_object py_get_not_object)

lemma copy_issues_shaped:
  "list_all issue_shaped items \<Longrightarrow> copy_issues acc items = Inr (acc @ map copied_issue items)"
  by (induction items arbitrary: acc) (simp_all add: and_then_def copy_issue_shaped)

lemma copy_issues_unshaped:
  "\<not> list_all issue_shaped items \<Longrightarrow> \<exists>e. copy_issues acc items = Inl e"
proof (induction items arbitrary: acc)
  case Nil
  then show ?case by simp
next
  case (Cons i items)
  show ?case
  proof (cases "issue_shaped i")
    case True
    with Cons.prems have "\<not> list_all issue_shaped items" by simp
    from Cons.IH [OF this] True show ?thesis
      by (simp add: and_then_def copy_issue_shaped)
  next
    case False
    from copy_issue_unshaped [OF this] show ?thesis
      by (auto simp: and_then_def)
  qed
qed

lemma invalid_scores_zero: "\<not> is_valid v \<Longrightarrow> calculate_quality_score v = 0"
  by (simp add: calculate_quality_score_def)

lemma resource_type_default:
  "dict_get doc ''resourceType'' JNull = JStr t \<Longrightarrow> dict_get doc ''resourceType'' d = JStr t"
  by (simp add: dict_get_def split: option.splits)

text \<open>
  An OperationOutcome that has not this shape is not validated: the call raises.
\<close>

lemma operation_outcome_unshaped_raises:
  assumes "dict_get doc ''resourceType'' JNull = JStr ''OperationOutcome''"
      and "\<not> outcome_shaped doc"
  shows "\<exists>e. validate_fhir_response doc = Inl e"
proof (cases "py_iter (dict_get doc ''issue'' (JList []))")
  case (Inl e)
  with assms show ?thesis
    by (simp add: validate_fhir_response_def and_then_def)
next
  case (Inr items)
  with assms have "\<not> list_all issue_shaped items"
    by (simp add: outcome_shaped_def)
  from copy_issues_unshaped [OF this, of "[]"] obtain e where "copy_issues [] items = Inl e" ..
  with assms Inr show ?thesis
    by (simp add: validate_fhir_response_def and_then_def)
qed

text \<open>
  C2, amended. For an OperationOutcome whose issues have the shape above, the
  validation returns an invalid result whose issues are the copies of the document's,
  in order, with an empty \<^verbatim>\<open>data_quality\<close>, and its score is \<open>0\<close>; the score of
  every invalid result is \<open>0\<close>.
\<close>

theorem operation_outcome_invalid:
  assumes "dict_get doc ''resourceType'' JNull = JStr ''OperationOutcome''"
      and "outcome_shaped doc"
  shows "(\<exists>items. py_iter (dict_get doc ''issue'' (JList [])) = Inr items
            \<and> validate_fhir_response doc =
                Inr \<lparr>is_valid = False, issues = map copied_issue items,
                     data_quality = empty_quality,
                     resource_type = JStr ''OperationOutcome''\<rparr>
            \<and> calculate_quality_score
                 \<lparr>is_valid = False, issues = map copied_issue items,
                  data_quality = empty_quality,
                  resource_type = JStr ''OperationOutcome''\<rparr> = 0)
         \<and> (\<forall>v. \<not> is_valid v \<longrightarrow> calculate_quality_score v = 0)"
proof (cases "py_iter (dict_get doc ''issue'' (JList []))")
  case (Inl e)
  with assms show ?thesis
    by (simp add: outcome_shaped_def)
next
  case (Inr items)
  with assms have "list_all issue_shaped items"
    by (simp add: outcome_shaped_def)
  from copy_issues_shaped [OF this, of "[]"] assms(1) resource_type_default [OF assms(1)] Inr
  show ?thesis
    by (simp add: validate_fhir_response_def and_then_def invalid_scores_zero)
qed

theorem operation_outcome_invalid_witness:
  "dict_get outcome_404 ''resourceType'' JNull = JStr ''OperationOutcome''
   \<and> outcome_shaped outcome_404
   \<and> validate_fhir_response outcome_404 =
       Inr \<lparr>is_valid = False,
            issues = [\<lparr>severity = JStr ''error'', code = JStr ''not-found'',
                       details = JStr ''Resource not found: Patient''\<rparr>,
                      \<lparr>severity = JStr ''unknown'', code = JStr ''unknown'',
                       details = JStr ''No details''\<rparr>],
            data_quality = empty_quality, resource_type = JStr ''OperationOutcome''\<rparr>
   \<and> calculate_quality_score
       \<lparr>is_valid = False,
        issues = [\<lparr>severity = JStr ''error'', code = JStr ''not-found'',
                   details = JStr ''Resource not found: Patient''\<rparr>,
                  \<lparr>severity = JStr ''unknown'', code = JStr ''unknown'',
                   details = JStr ''No details''\<rparr>],
        data_quality = empty_quality, resource_type = JStr ''OperationOutcome''\<rparr> = 0"
proof -
  have rt: "dict_get outcome_404 ''resourceType'' JNull = JStr ''OperationOutcome''"
    by (simp add: outcome_404_def dict_get_def)
  have sh: "outcome_shaped outcome_404"
    by (simp add: outcome_404_def outcome_shaped_def dict_get_def issue_shaped_def)
  from operation_outcome_invalid [OF rt sh] sh rt show ?thesis
    by (auto simp: outcome_404_def dict_get_def copied_issue_def)
qed

text \<open>
  The claim as stated fails on an OperationOutcome whose \<^verbatim>\<open>details\<close> is a string:
  \<^verbatim>\<open>.get('text', ...)\<close> is called on the string and raises \<^verbatim>\<open>AttributeError\<close>, so no
  result is returned.
\<close>

theorem operation_outcome_counterexample:
  "dict_get outcome_text_details ''resourceType'' JNull = JStr ''OperationOutcome''
   \<and> validate_fhir_response outcome_text_details =
       Inl (no_attribute (JStr ''Server error'') ''get'')"
  by (simp add: outcome_text_details_def validate_fhir_response_def dict_get_def and_then_def
        copy_issue_def)

subsection \<open>Bundles\<close>

lemmas eval_defs =
  bundle_of_def patient_entry_def observation_entry_def entries_of_def dict_get_def
  referenced_patient_ids_def claimed_referenced_ids_def actual_patient_ids_def
  List.map_filter_simps is_patient_def resource_of_def referenced_id_def referenced_id_of_def
  patient_id_def last_segment_def


lemma str_contains_single: "str_contains r [c] = (c \<in> set r)"
  by (induction r) auto

lemma same_element_str: "same_element y (JStr s) = (y = JStr s)"
  by (cases y) (auto simp: same_element_def)

lemma same_element_refl: "same_element a a"
  by (simp add: same_element_def split: option.splits)

lemma set_add_str:
  "set_add P (JStr x) = Inr (if JStr x \<in> set P then P else P @ [JStr x])"
  by (auto simp: same_element_str)

lemma set_add_scalar:
  "is_scalar v \<Longrightarrow> set_add A v = Inr (if \<exists>x \<in> set A. same_element x v then A else A @ [v])"
  by (cases v) simp_all

lemma set_add_props:
  assumes "set_add A v = Inr A1"
  shows "A1 \<noteq> [] \<and> (\<forall>s. JStr s \<in> set A1 \<longleftrightarrow> JStr s \<in> set A \<or> v = JStr s)"
proof -
  from assms have sc: "is_scalar v" by (cases v) simp_all
  from assms set_add_scalar [OF sc, of A]
  have A1: "A1 = (if \<exists>x \<in> set A. same_element x v then A else A @ [v])" by simp
  show ?thesis
  proof (cases "\<exists>x \<in> set A. same_element x v")
    case True
    then obtain x where x: "x \<in> set A" "same_element x v" by blast
    with A1 True have "A1 = A" by simp
    moreover from x have "A \<noteq> []" by auto
    moreover have "v = JStr s \<Longrightarrow> JStr s \<in> set A" for s
      using x by (simp add: same_element_str)
    ultimately show ?thesis by auto
  next
    case False
    with A1 show ?thesis by auto
  qed
qed

lemma in_keys_iff: "(k \<in> fst ` set kvs) = (map_of kvs k \<noteq> None)"
  by (simp add: map_of_eq_None_iff)

lemma add_subject_ref_shaped:
  assumes "is_object res" and "subject_shaped res"
  shows "add_subject_ref P res =
           (case referenced_id_of res of None \<Rightarrow> Inr P | Some x \<Rightarrow> set_add P x)"
proof -
  from assms(1) obtain kvs where res: "res = JDict kvs" by (cases res) simp_all
  show ?thesis
  proof (cases "map_of kvs ''subject''")
    case None
    then show ?thesis
      by (simp add: res add_subject_ref_def referenced_id_of_def and_then_def in_keys_iff dict_get_def)
  next
    case (Some subj)
    with assms(2) res obtain s where subj: "subj = JDict s"
      by (cases subj) (simp_all add: subject_shaped_def)
    show ?thesis
    proof (cases "map_of s ''reference''")
      case None
      with Some subj show ?thesis
        by (simp add: res add_subject_ref_def referenced_id_of_def and_then_def in_keys_iff dict_get_def)
    next
      case (Some r)
      with assms(2) res \<open>map_of kvs ''subject'' = Some subj\<close> subj obtain x where r: "r = JStr x"
        by (cases r) (simp_all add: subject_shaped_def)
      with Some \<open>map_of kvs ''subject'' = Some subj\<close> subj show ?thesis
        by (simp add: res add_subject_ref_def referenced_id_of_def and_then_def in_keys_iff
              dict_get_def str_contains_single same_element_str)
    qed
  qed
qed


lemma referenced_id_of_str: "referenced_id_of res = Some x \<Longrightarrow> \<exists>s. x = JStr s"
  by (auto simp: referenced_id_of_def split: json.splits if_splits)

lemma any_next_shaped: "list_all is_object ls \<Longrightarrow> \<exists>b. any_next ls = Inr b"
  by (induction ls) (auto simp: and_then_def py_get_object)

lemma collect_types_shaped:
  "list_all entry_shaped es \<Longrightarrow> \<exists>ts. collect_types s es = Inr ts"
proof (induction es arbitrary: s)
  case Nil
  then show ?case by simp
next
  case (Cons e es)
  then have se: "entry_shaped e" and rest: "list_all entry_shaped es"
    by simp_all
  from se have e: "is_object e" "is_object (resource_of e)"
      "is_scalar (field_or (resource_of e) ''resourceType'' JNull)"
    by (simp_all add: entry_shaped_def)
  from e(1) obtain b where b: "py_in ''resource'' e = Inr b" by (cases e) simp_all
  have g1: "py_get e ''resource'' (JDict []) = Inr (resource_of e)"
    using e(1) by (simp add: py_get_object resource_of_def)
  have g2: "py_get (resource_of e) ''resourceType'' JNull
              = Inr (field_or (resource_of e) ''resourceType'' JNull)"
    using e(2) by (simp add: py_get_object)
  from set_add_scalar [OF e(3)] obtain s' where
    s': "set_add s (field_or (resource_of e) ''resourceType'' JNull) = Inr s'" by blast
  from Cons.IH [OF rest] obtain t1 where t1: "collect_types s es = Inr t1" by blast
  from Cons.IH [OF rest] obtain t2 where t2: "collect_types s' es = Inr t2" by blast
  from b g1 g2 s' t1 t2 show ?case
    by (simp add: and_then_def)
qed

text \<open>The loop over well-shaped entries.\<close>

lemma scan_entries_shaped:
  assumes "list_all entry_shaped es" and "distinct P" and "set P \<subseteq> range JStr"
  shows "\<exists>P' A'. scan_entries P A es = Inr (P', A')
           \<and> distinct P' \<and> set P' = set P \<union> referenced_patient_ids es
           \<and> (A' = [] \<longleftrightarrow> A = [] \<and> actual_patient_ids es = {})
           \<and> (\<forall>s. JStr s \<in> set A' \<longleftrightarrow> JStr s \<in> set A \<or> JStr s \<in> actual_patient_ids es)"
  using assms
proof (induction es arbitrary: P A)
  case Nil
  then show ?case
    by (simp add: referenced_patient_ids_def actual_patient_ids_def)
next
  case (Cons e es)
  then have se: "entry_shaped e" and rest: "list_all entry_shaped es"
    by simp_all
  from se have e: "is_object e" "is_object (resource_of e)"
    by (simp_all add: entry_shaped_def)
  have g1: "py_get e ''resource'' (JDict []) = Inr (resource_of e)"
    using e(1) by (simp add: py_get_object resource_of_def)
  have g2: "py_get (resource_of e) ''resourceType'' JNull
              = Inr (field_or (resource_of e) ''resourceType'' JNull)"
    using e(2) by (simp add: py_get_object)
  show ?case
  proof (cases "is_patient e")
    case True
    with se have sc: "is_scalar (patient_id e)"
      by (simp add: entry_shaped_def)
    from set_add_scalar [OF sc, of A] obtain A1 where A1: "set_add A (patient_id e) = Inr A1"
      by blast
    note pr = set_add_props [OF A1]
    from Cons.IH [OF rest Cons.prems(2,3), of A1] obtain P' A' where
      r: "scan_entries P A1 es = Inr (P', A')" "distinct P'"
         "set P' = set P \<union> referenced_patient_ids es"
         "A' = [] \<longleftrightarrow> A1 = [] \<and> actual_patient_ids es = {}"
         "\<forall>s. JStr s \<in> set A' \<longleftrightarrow> JStr s \<in> set A1 \<or> JStr s \<in> actual_patient_ids es"
      by blast
    have step: "scan_entries P A (e # es) = scan_entries P A1 es"
      using True g1 g2 A1 e(2)
      by (simp add: and_then_def is_patient_def py_get_object patient_id_def)
    have refs: "referenced_patient_ids (e # es) = referenced_patient_ids es"
      using True by (simp add: referenced_patient_ids_def)
    have ids: "actual_patient_ids (e # es) = insert (patient_id e) (actual_patient_ids es)"
      using True by (simp add: actual_patient_ids_def)
    from r pr show ?thesis
      unfolding step refs ids by auto
  next
    case False
    with se have sh: "subject_shaped (resource_of e)"
      by (simp add: entry_shaped_def)
    note asr = add_subject_ref_shaped [OF e(2) sh, of P]
    have ids: "actual_patient_ids (e # es) = actual_patient_ids es"
      using False by (simp add: actual_patient_ids_def)
    show ?thesis
    proof (cases "referenced_id e")
      case None
      have step: "scan_entries P A (e # es) = scan_entries P A es"
        using False g1 g2 asr None
        by (simp add: and_then_def is_patient_def referenced_id_def)
      have refs: "referenced_patient_ids (e # es) = referenced_patient_ids es"
        using False None by (simp add: referenced_patient_ids_def List.map_filter_simps)
      from Cons.IH [OF rest Cons.prems(2,3), of A] show ?thesis
        unfolding step refs ids by simp
    next
      case (Some x)
      then obtain s where x: "x = JStr s"
        using referenced_id_of_str by (auto simp: referenced_id_def)
      define P1 where "P1 = (if JStr s \<in> set P then P else P @ [JStr s])"
      have step: "scan_entries P A (e # es) = scan_entries P1 A es"
        using False g1 g2 asr Some x
        by (simp add: and_then_def is_patient_def referenced_id_def same_element_str P1_def)
      have refs: "referenced_patient_ids (e # es) = insert (JStr s) (referenced_patient_ids es)"
        using False Some x by (simp add: referenced_patient_ids_def List.map_filter_simps)
      have d1: "distinct P1" and s1: "set P1 \<subseteq> range JStr" and e1: "set P1 = insert (JStr s) (set P)"
        using Cons.prems(2,3) by (auto simp: P1_def)
      from Cons.IH [OF rest d1 s1, of A] show ?thesis
        unfolding step refs ids e1 by auto
    qed
  qed
qed


lemma set_diff_strings:
  assumes "distinct P" and "set P \<subseteq> range JStr"
      and "\<forall>s. JStr s \<in> set A \<longleftrightarrow> JStr s \<in> B"
  shows "set (set_diff P A) = set P - B" and "length (set_diff P A) = card (set P - B)"
proof -
  have mem: "(\<exists>y \<in> set A. same_element y x) \<longleftrightarrow> x \<in> B" if "x \<in> set P" for x
  proof -
    from that assms(2) obtain s where "x = JStr s" by auto
    with assms(3) show ?thesis by (simp add: same_element_str)
  qed
  then show s: "set (set_diff P A) = set P - B"
    by (auto simp: set_diff_def)
  from assms(1) have "distinct (set_diff P A)"
    by (simp add: set_diff_def)
  from distinct_card [OF this] s show "length (set_diff P A) = card (set P - B)"
    by simp
qed

lemma py_get_Inr: "py_get v k d = Inr x \<Longrightarrow> is_object v \<and> x = field_or v k d"
  by (cases v) simp_all

lemma scan_entries_patients:
  "scan_entries P A es = Inr (P', A')
     \<Longrightarrow> (A' = [] \<longleftrightarrow> A = [] \<and> actual_patient_ids es = {})"
proof (induction es arbitrary: P A)
  case Nil
  then show ?case by (simp add: actual_patient_ids_def)
next
  case (Cons e es)
  from Cons.prems obtain res where res: "py_get e ''resource'' (JDict []) = Inr res"
    by (cases "py_get e ''resource'' (JDict [])") (simp_all add: and_then_def)
  from Cons.prems res obtain rt where rt: "py_get res ''resourceType'' JNull = Inr rt"
    by (cases "py_get res ''resourceType'' JNull") (simp_all add: and_then_def)
  from py_get_Inr [OF res] have r1: "res = resource_of e" by (simp add: resource_of_def)
  from py_get_Inr [OF rt] r1 have r2: "rt = field_or (resource_of e) ''resourceType'' JNull"
    and ob: "is_object (resource_of e)" by simp_all
  show ?case
  proof (cases "is_patient e")
    case True
    with r2 have p: "rt = JStr ''Patient''" by (simp add: is_patient_def)
    from ob have i: "py_get res ''id'' JNull = Inr (patient_id e)"
      by (simp add: r1 py_get_object patient_id_def)
    from Cons.prems res rt p i obtain A1 where
      A1: "set_add A (patient_id e) = Inr A1" and nx: "scan_entries P A1 es = Inr (P', A')"
      by (cases "set_add A (patient_id e)") (simp_all add: and_then_def)
    from set_add_props [OF A1] Cons.IH [OF nx] True show ?thesis
      by (simp add: actual_patient_ids_def)
  next
    case False
    with r2 have p: "rt \<noteq> JStr ''Patient''" by (simp add: is_patient_def)
    from Cons.prems res rt p obtain P1 where nx: "scan_entries P1 A es = Inr (P', A')"
      by (cases "add_subject_ref P res") (simp_all add: and_then_def)
    from Cons.IH [OF nx] False show ?thesis
      by (simp add: actual_patient_ids_def)
  qed
qed

text \<open>What a Bundle's validation returns, when it returns.\<close>

lemma bundle_result:
  assumes "validate_fhir_response doc = Inr v"
      and "dict_get doc ''resourceType'' JNull = JStr ''Bundle''"
  shows "\<exists>q P A. scan_entries [] [] (entries_of doc) = Inr (P, A)
           \<and> v = check_orphans
                   \<lparr>is_valid = True, issues = [], data_quality = q,
                    resource_type = JStr ''Bundle''\<rparr> P A
           \<and> total_resources q = Some (dict_get doc ''total'' (JInt 0))
           \<and> orphaned_patient_refs q = None"
  using assms resource_type_default [OF assms(2), of "JStr ''Unknown''"]
  by (auto simp: validate_fhir_response_def validate_bundle_def and_then_def entries_of_def
        Let_def split: sum.splits prod.splits)

lemma check_orphans_cases:
  "check_orphans b P A =
     (if P \<noteq> [] \<and> A \<noteq> [] \<and> set_diff P A \<noteq> []
      then b\<lparr>issues := issues b @ [orphan_issue (length (set_diff P A))],
             data_quality := (data_quality b)
               \<lparr>orphaned_patient_refs := Some (length (set_diff P A))\<rparr>\<rparr>
      else b)"
  by (simp add: check_orphans_def Let_def)

lemma bundle_shaped_result:
  assumes "dict_get doc ''resourceType'' JNull = JStr ''Bundle''"
      and "bundle_shaped doc"
  shows "\<exists>v. validate_fhir_response doc = Inr v"
proof -
  from assms(2) obtain es ls where
    es: "dict_get doc ''entry'' (JList []) = JList es" "list_all entry_shaped es" and
    ls: "dict_get doc ''link'' (JList []) = JList ls" "list_all is_object ls"
    by (auto simp: bundle_shaped_def split: json.splits)
  from any_next_shaped [OF ls(2)] obtain b where b: "any_next ls = Inr b" ..
  from collect_types_shaped [OF es(2), of "[]"] obtain ts where ts: "collect_types [] es = Inr ts" ..
  from scan_entries_shaped [OF es(2), of "[]" "[]"] obtain P A where
    sc: "scan_entries [] [] es = Inr (P, A)" by auto
  from assms(1) es(1) ls(1) b ts sc show ?thesis
    by (simp add: validate_fhir_response_def validate_bundle_def and_then_def)
qed

lemma gt_zero_not_zero: "py_gt_zero t = Inr True \<Longrightarrow> \<not> py_eq_zero t"
  by (auto simp: py_eq_zero_def split: option.splits pyfloat.splits)


text \<open>
  C3, amended. For a Bundle of the shape above in which some entry that is not a
  Patient references an id, some entry is a Patient, and some referenced id is the id
  of no Patient entry, the validation returns a result whose only issue is the warning
  \<^verbatim>\<open>orphaned-references\<close> with the number of such ids in its text, and
  \<^verbatim>\<open>orphaned_patient_refs\<close> is that number.
\<close>

theorem orphaned_references_reported:
  assumes "dict_get doc ''resourceType'' JNull = JStr ''Bundle''"
      and "bundle_shaped doc"
      and "referenced_patient_ids (entries_of doc) \<noteq> {}"
      and "actual_patient_ids (entries_of doc) \<noteq> {}"
      and "referenced_patient_ids (entries_of doc) - actual_patient_ids (entries_of doc) \<noteq> {}"
  shows "\<exists>v. validate_fhir_response doc = Inr v
           \<and> issues v =
               [orphan_issue (card (referenced_patient_ids (entries_of doc)
                                      - actual_patient_ids (entries_of doc)))]
           \<and> orphaned_patient_refs (data_quality v) =
               Some (card (referenced_patient_ids (entries_of doc)
                             - actual_patient_ids (entries_of doc)))"
proof -
  from bundle_shaped_result [OF assms(1,2)] obtain v where v: "validate_fhir_response doc = Inr v" ..
  from bundle_result [OF v assms(1)] obtain q P A where
    sc: "scan_entries [] [] (entries_of doc) = Inr (P, A)" and
    vv: "v = check_orphans \<lparr>is_valid = True, issues = [], data_quality = q,
                            resource_type = JStr ''Bundle''\<rparr> P A"
    by blast
  from assms(2) have sh: "list_all entry_shaped (entries_of doc)"
    by (auto simp: bundle_shaped_def entries_of_def split: json.splits)
  from scan_entries_shaped [OF sh, of "[]" "[]"] sc have
    d: "distinct P" and sP: "set P = referenced_patient_ids (entries_of doc)" and
    eA: "A = [] \<longleftrightarrow> actual_patient_ids (entries_of doc) = {}" and
    mA: "\<forall>s. JStr s \<in> set A \<longleftrightarrow> JStr s \<in> actual_patient_ids (entries_of doc)"
    by auto
  have rg: "set P \<subseteq> range JStr"
  proof
    fix x assume "x \<in> set P"
    with sP obtain e where "referenced_id_of (resource_of e) = Some x"
      by (auto simp: referenced_patient_ids_def List.map_filter_def referenced_id_def)
    from referenced_id_of_str [OF this] show "x \<in> range JStr" by auto
  qed
  note sd = set_diff_strings [OF d rg mA]
  from assms(3) sP have P: "P \<noteq> []" by auto
  from assms(4) eA have A: "A \<noteq> []" by simp
  from assms(5) sd(1) sP have D: "set_diff P A \<noteq> []" by auto
  from v vv P A D sd(2) sP show ?thesis
    by (simp add: check_orphans_cases)
qed


text \<open>One Patient with id \<open>1\<close> and one Observation referencing \<^verbatim>\<open>Patient/2\<close>.\<close>

theorem orphaned_references_reported_witness:
  "dict_get bundle_orphan ''resourceType'' JNull = JStr ''Bundle''
   \<and> bundle_shaped bundle_orphan
   \<and> referenced_patient_ids (entries_of bundle_orphan) = {JStr ''2''}
   \<and> actual_patient_ids (entries_of bundle_orphan) = {JStr ''1''}
   \<and> (\<exists>v. validate_fhir_response bundle_orphan = Inr v
          \<and> issues v =
              [\<lparr>severity = JStr ''warning'', code = JStr ''orphaned-references'',
                details = JStr ''Found 1 orphaned patient references''\<rparr>]
          \<and> orphaned_patient_refs (data_quality v) = Some 1)"
proof -
  have b: "dict_get bundle_orphan ''resourceType'' JNull = JStr ''Bundle''"
    by (simp add: bundle_orphan_def eval_defs)
  have sh: "bundle_shaped bundle_orphan"
    by (simp add: bundle_orphan_def eval_defs bundle_shaped_def entry_shaped_def
          subject_shaped_def)
  have r: "referenced_patient_ids (entries_of bundle_orphan) = {JStr ''2''}"
    by (simp add: bundle_orphan_def eval_defs)
  have a: "actual_patient_ids (entries_of bundle_orphan) = {JStr ''1''}"
    by (simp add: bundle_orphan_def eval_defs)
  from orphaned_references_reported [OF b sh] r a b sh show ?thesis
    by (simp add: orphan_issue_def str_nat.simps)
qed

text \<open>
  The claim as stated fails twice. A reference held by a Patient entry is not
  collected, the loop reading \<^verbatim>\<open>subject\<close> only in the branch for the other resource
  types: a Bundle whose one entry is a Patient with id \<open>1\<close> and a subject
  \<^verbatim>\<open>Patient/2\<close> gets no issue and no count. And a Bundle that has not the shape is not
  validated: with a third entry whose \<^verbatim>\<open>subject.reference\<close> is \<^verbatim>\<open>null\<close>, the test
  \<^verbatim>\<open>'/' in ref\<close> raises \<^verbatim>\<open>TypeError\<close>.
\<close>

theorem orphaned_references_counterexample:
  "claimed_referenced_ids (entries_of bundle_patient_subject) = {JStr ''2''}
   \<and> actual_patient_ids (entries_of bundle_patient_subject) = {JStr ''1''}
   \<and> validate_fhir_response bundle_patient_subject =
        Inr \<lparr>is_valid = True, issues = [],
             data_quality =
               \<lparr>total_resources = Some (JInt 2), returned_resources = Some 1,
                has_next_page = Some False, resource_types = Some [JStr ''Patient''],
                orphaned_patient_refs = None\<rparr>,
             resource_type = JStr ''Bundle''\<rparr>
   \<and> claimed_referenced_ids (entries_of bundle_null_reference) = {JStr ''2''}
   \<and> actual_patient_ids (entries_of bundle_null_reference) = {JStr ''1''}
   \<and> validate_fhir_response bundle_null_reference =
        Inl (Exn TypeError
               (''argument of type '' @ [CHR 0x27] @ ''NoneType'' @ [CHR 0x27]
                  @ '' is not iterable''))"
  by (simp add: bundle_patient_subject_def bundle_null_reference_def eval_defs
        validate_fhir_response_def validate_bundle_def and_then_def add_subject_ref_def
        check_orphans_def set_diff_def same_element_def empty_quality_def type_error_def)

text \<open>
  C4. In a Bundle with no Patient entry the orphan check does not run, whatever the
  other entries reference: a result has no issue and no \<^verbatim>\<open>orphaned_patient_refs\<close>; and
  a result there is, when the Bundle has the shape above.
\<close>

theorem no_patient_no_orphans:
  assumes "dict_get doc ''resourceType'' JNull = JStr ''Bundle''"
      and "actual_patient_ids (entries_of doc) = {}"
  shows "(\<forall>v. validate_fhir_response doc = Inr v \<longrightarrow>
            issues v = [] \<and> orphaned_patient_refs (data_quality v) = None)
         \<and> (bundle_shaped doc \<longrightarrow> (\<exists>v. validate_fhir_response doc = Inr v))"
proof -
  have "issues v = [] \<and> orphaned_patient_refs (data_quality v) = None"
    if v: "validate_fhir_response doc = Inr v" for v
  proof -
    from bundle_result [OF v assms(1)] obtain q P A where
      sc: "scan_entries [] [] (entries_of doc) = Inr (P, A)" and
      vv: "v = check_orphans \<lparr>is_valid = True, issues = [], data_quality = q,
                              resource_type = JStr ''Bundle''\<rparr> P A" and
      q: "orphaned_patient_refs q = None"
      by blast
    from scan_entries_patients [OF sc] assms(2) have "A = []" by simp
    with vv q show ?thesis by (simp add: check_orphans_cases)
  qed
  with bundle_shaped_result [OF assms(1)] show ?thesis by blast
qed


text \<open>One Observation referencing \<^verbatim>\<open>Patient/99\<close> and no Patient.\<close>

theorem no_patient_no_orphans_witness:
  "dict_get bundle_no_patient ''resourceType'' JNull = JStr ''Bundle''
   \<and> referenced_patient_ids (entries_of bundle_no_patient) = {JStr ''99''}
   \<and> actual_patient_ids (entries_of bundle_no_patient) = {}
   \<and> bundle_shaped bundle_no_patient
   \<and> (\<exists>v. validate_fhir_response bundle_no_patient = Inr v
          \<and> issues v = [] \<and> orphaned_patient_refs (data_quality v) = None)"
proof -
  have b: "dict_get bundle_no_patient ''resourceType'' JNull = JStr ''Bundle''"
    by (simp add: bundle_no_patient_def eval_defs)
  have r: "referenced_patient_ids (entries_of bundle_no_patient) = {JStr ''99''}"
    by (simp add: bundle_no_patient_def eval_defs)
  have a: "actual_patient_ids (entries_of bundle_no_patient) = {}"
    by (simp add: bundle_no_patient_def eval_defs)
  have sh: "bundle_shaped bundle_no_patient"
    by (simp add: bundle_no_patient_def eval_defs bundle_shaped_def entry_shaped_def
          subject_shaped_def)
  from no_patient_no_orphans [OF b a] sh b r a show ?thesis
    by blast
qed

text \<open>
  C5. A Bundle whose validation produces no issue and whose total is above zero scores
  \<open>100\<close>. That no orphaned reference was recorded follows from the empty issue list.
\<close>

theorem clean_bundle_scores_100:
  assumes "validate_fhir_response doc = Inr v"
      and "dict_get doc ''resourceType'' JNull = JStr ''Bundle''"
      and "issues v = []"
      and "py_gt_zero (dict_get doc ''total'' (JInt 0)) = Inr True"
  shows "calculate_quality_score v = 100"
proof -
  from bundle_result [OF assms(1,2)] obtain q P A where
    vv: "v = check_orphans \<lparr>is_valid = True, issues = [], data_quality = q,
                            resource_type = JStr ''Bundle''\<rparr> P A" and
    t: "total_resources q = Some (dict_get doc ''total'' (JInt 0))" and
    q: "orphaned_patient_refs q = None"
    by blast
  from assms(3) vv have "v = \<lparr>is_valid = True, issues = [], data_quality = q,
                            resource_type = JStr ''Bundle''\<rparr>"
    by (simp add: check_orphans_cases split: if_splits)
  with t q gt_zero_not_zero [OF assms(4)] show ?thesis
    by (simp add: calculate_quality_score_def)
qed



text \<open>A Patient and an Observation that references it, with a total of \<open>2\<close>.\<close>

theorem clean_bundle_scores_100_witness:
  "validate_fhir_response bundle_linked =
     Inr \<lparr>is_valid = True, issues = [],
          data_quality =
            \<lparr>total_resources = Some (JInt 2), returned_resources = Some 2,
             has_next_page = Some False,
             resource_types = Some [JStr ''Patient'', JStr ''Observation''],
             orphaned_patient_refs = None\<rparr>,
          resource_type = JStr ''Bundle''\<rparr>
   \<and> dict_get bundle_linked ''resourceType'' JNull = JStr ''Bundle''
   \<and> py_gt_zero (dict_get bundle_linked ''total'' (JInt 0)) = Inr True
   \<and> calculate_quality_score
        \<lparr>is_valid = True, issues = [],
         data_quality =
           \<lparr>total_resources = Some (JInt 2), returned_resources = Some 2,
            has_next_page = Some False,
            resource_types = Some [JStr ''Patient'', JStr ''Observation''],
            orphaned_patient_refs = None\<rparr>,
         resource_type = JStr ''Bundle''\<rparr> = 100"
proof -
  have v: "validate_fhir_response bundle_linked =
     Inr \<lparr>is_valid = True, issues = [],
          data_quality =
            \<lparr>total_resources = Some (JInt 2), returned_resources = Some 2,
             has_next_page = Some False,
             resource_types = Some [JStr ''Patient'', JStr ''Observation''],
             orphaned_patient_refs = None\<rparr>,
          resource_type = JStr ''Bundle''\<rparr>"
    by (simp add: bundle_linked_def eval_defs validate_fhir_response_def validate_bundle_def
          and_then_def add_subject_ref_def check_orphans_def set_diff_def same_element_def
          empty_quality_def)
  have b: "dict_get bundle_linked ''resourceType'' JNull = JStr ''Bundle''"
    by (simp add: bundle_linked_def eval_defs)
  have t: "py_gt_zero (dict_get bundle_linked ''total'' (JInt 0)) = Inr True"
    by (simp add: bundle_linked_def eval_defs)
  from clean_bundle_scores_100 [OF v b _ t] v b t show ?thesis
    by simp
qed

section \<open>Properties of the gateway\<close>





section \<open>Properties of the assessment\<close>

lemma update_fresh: "k \<notin> fst ` set acc \<Longrightarrow> AList.update k v acc = acc @ [(k, v)]"
  by (induction acc) auto

lemma foldl_update_distinct:
  "distinct rs \<Longrightarrow> set rs \<inter> fst ` set acc = {}
     \<Longrightarrow> foldl (\<lambda>a r. AList.update r (f r) a) acc rs = acc @ map (\<lambda>r. (r, f r)) rs"
proof (induction rs arbitrary: acc)
  case Nil
  then show ?case by simp
next
  case (Cons r rs)
  from Cons.prems have fr: "r \<notin> fst ` set acc" by auto
  from Cons.prems have "set rs \<inter> fst ` set (acc @ [(r, f r)]) = {}" by auto
  with Cons.IH [of "acc @ [(r, f r)]"] Cons.prems(1) fr show ?case
    by (simp add: update_fresh)
qed

lemma assess_loop_eq:
  "assess_loop w self acc rs =
     Inr (foldl (\<lambda>a r. AList.update r (resource_record w self r) a) acc rs)"
  by (induction rs arbitrary: acc)
     (simp_all add: and_then_def try_except_def resource_record_def failed_record_def
        split: sum.splits)

lemma test_resources_distinct: "distinct (test_resources requested)"
  by (simp add: test_resources_def split: option.splits)

lemma assess_data_quality_eq:
  "assess_data_quality w self requested =
     Inr \<lparr>server_url = base_url self, timestamp = now_isoformat w,
          resource_assessments =
            map (\<lambda>r. (r, resource_record w self r)) (test_resources requested)\<rparr>"
  using foldl_update_distinct [OF test_resources_distinct, of requested "[]" "resource_record w self"]
  by (simp add: assess_data_quality_def assess_loop_eq and_then_def)

lemma outcome_result_invalid:
  assumes "validate_fhir_response doc = Inr v"
      and "dict_get doc ''resourceType'' JNull = JStr ''OperationOutcome''"
  shows "\<not> is_valid v"
  using assms
  by (auto simp: validate_fhir_response_def and_then_def Let_def split: sum.splits)

lemma outcome_record:
  assumes "make_request w self ''GET'' r [(''_count'', JInt 10)] = Inr doc"
      and "dict_get doc ''resourceType'' JNull = JStr ''OperationOutcome''"
  shows "\<not> accessible (resource_record w self r)
         \<and> data_quality_score (resource_record w self r) = 0"
proof (cases "validate_fhir_response doc")
  case (Inl e)
  with assms(1) show ?thesis
    by (simp add: resource_record_def assess_resource_def and_then_def failed_record_def)
next
  case (Inr v)
  from outcome_result_invalid [OF Inr assms(2)] Inr assms(1) show ?thesis
    by (simp add: resource_record_def assess_resource_def and_then_def invalid_scores_zero)
qed

lemma raised_record:
  assumes "make_request w self ''GET'' r [(''_count'', JInt 10)] = Inl e
           \<or> (\<exists>doc. make_request w self ''GET'' r [(''_count'', JInt 10)] = Inr doc
                  \<and> validate_fhir_response doc = Inl e)"
  shows "resource_record w self r = failed_record e"
  using assms
  by (auto simp: resource_record_def assess_resource_def and_then_def)

text \<open>
  C7. \<^verbatim>\<open>assess_data_quality\<close> returns an assessment whatever the gateway does, with one
  entry for each resource type it was to test, in order. The entry of a type for which
  the gateway returned an OperationOutcome is inaccessible with score \<open>0\<close>; the entry
  of a type whose request or validation raised is inaccessible with score \<open>0\<close> and
  the text of the exception.
\<close>

theorem assess_isolates_failures:
  "\<exists>a. assess_data_quality w self requested = Inr a
     \<and> map fst (resource_assessments a) = test_resources requested
     \<and> (\<forall>r \<in> set (test_resources requested).
          \<exists>d. map_of (resource_assessments a) r = Some d
            \<and> (\<forall>doc. make_request w self ''GET'' r [(''_count'', JInt 10)] = Inr doc
                    \<and> dict_get doc ''resourceType'' JNull = JStr ''OperationOutcome''
                  \<longrightarrow> \<not> accessible d \<and> data_quality_score d = 0)
            \<and> (\<forall>e. make_request w self ''GET'' r [(''_count'', JInt 10)] = Inl e
                    \<or> (\<exists>doc. make_request w self ''GET'' r [(''_count'', JInt 10)] = Inr doc
                           \<and> validate_fhir_response doc = Inl e)
                  \<longrightarrow> d = \<lparr>accessible = False, total_available = None, issues_found = None,
                           data_quality_score = 0, error = Some (str_of e)\<rparr>))"
proof -
  let ?a = "\<lparr>server_url = base_url self, timestamp = now_isoformat w,
          resource_assessments =
            map (\<lambda>r. (r, resource_record w self r)) (test_resources requested)\<rparr>"
  have keys: "map fst (resource_assessments ?a) = test_resources requested"
    by (simp add: comp_def)
  have look: "map_of (resource_assessments ?a) r = Some (resource_record w self r)"
    if "r \<in> set (test_resources requested)" for r
    using that by (simp add: map_of_map_restrict)
  have "\<exists>d. map_of (resource_assessments ?a) r = Some d
            \<and> (\<forall>doc. make_request w self ''GET'' r [(''_count'', JInt 10)] = Inr doc
                    \<and> dict_get doc ''resourceType'' JNull = JStr ''OperationOutcome''
                  \<longrightarrow> \<not> accessible d \<and> data_quality_score d = 0)
            \<and> (\<forall>e. make_request w self ''GET'' r [(''_count'', JInt 10)] = Inl e
                    \<or> (\<exists>doc. make_request w self ''GET'' r [(''_count'', JInt 10)] = Inr doc
                           \<and> validate_fhir_response doc = Inl e)
                  \<longrightarrow> d = \<lparr>accessible = False, total_available = None, issues_found = None,
                           data_quality_score = 0, error = Some (str_of e)\<rparr>)"
    if r: "r \<in> set (test_resources requested)" for r
  proof (intro exI conjI allI impI)
    show "map_of (resource_assessments ?a) r = Some (resource_record w self r)"
      by (rule look [OF r])
  next
    fix doc
    assume "make_request w self ''GET'' r [(''_count'', JInt 10)] = Inr doc
              \<and> dict_get doc ''resourceType'' JNull = JStr ''OperationOutcome''"
    then show "\<not> accessible (resource_record w self r)"
      and "data_quality_score (resource_record w self r) = 0"
      using outcome_record by blast+
  next
    fix e
    assume "make_request w self ''GET'' r [(''_count'', JInt 10)] = Inl e
              \<or> (\<exists>doc. make_request w self ''GET'' r [(''_count'', JInt 10)] = Inr doc
                     \<and> validate_fhir_response doc = Inl e)"
    from raised_record [OF this]
    show "resource_record w self r = \<lparr>accessible = False, total_available = None,
            issues_found = None, data_quality_score = 0, error = Some (str_of e)\<rparr>"
      by (simp add: failed_record_def)
  qed
  with keys assess_data_quality_eq [of w self requested] show ?thesis
    by blast
qed

lemma make_request_404:
  "r \<noteq> ''//['' \<Longrightarrow>
   make_request world_404 test_client ''GET'' r kwargs =
     Inr (operation_outcome ''error'' ''not-found'' (''Resource not found: '' @ r))"
  by (simp add: make_request_def send_request_def and_then_def try_except_def world_404_def
        plain_urljoin_def not_found_response_def)

lemma outcome_resource_type:
  "dict_get (operation_outcome sev cd text) ''resourceType'' JNull = JStr ''OperationOutcome''"
  by (simp add: operation_outcome_def dict_get_def)

text \<open>Every request answered with 404, and the one type Patient.\<close>

theorem assess_isolates_failures_witness:
  "\<exists>a. assess_data_quality world_404 test_client (Some ''Patient'') = Inr a
     \<and> map fst (resource_assessments a) = [''Patient'']
     \<and> (\<exists>d. map_of (resource_assessments a) ''Patient'' = Some d
           \<and> \<not> accessible d \<and> data_quality_score d = 0)"
proof -
  have t: "test_resources (Some ''Patient'') = [''Patient'']"
    by (simp add: test_resources_def)
  have m: "make_request world_404 test_client ''GET'' ''Patient'' [(''_count'', JInt 10)] =
     Inr (operation_outcome ''error'' ''not-found'' ''Resource not found: Patient'')"
    using make_request_404 [of "''Patient''"] by simp
  from assess_isolates_failures [of world_404 test_client "Some ''Patient''"]
  obtain a where a: "assess_data_quality world_404 test_client (Some ''Patient'') = Inr a"
    "map fst (resource_assessments a) = test_resources (Some ''Patient'')"
    "\<forall>r \<in> set (test_resources (Some ''Patient'')).
          \<exists>d. map_of (resource_assessments a) r = Some d
            \<and> (\<forall>doc. make_request world_404 test_client ''GET'' r [(''_count'', JInt 10)] = Inr doc
                    \<and> dict_get doc ''resourceType'' JNull = JStr ''OperationOutcome''
                  \<longrightarrow> \<not> accessible d \<and> data_quality_score d = 0)
            \<and> (\<forall>e. make_request world_404 test_client ''GET'' r [(''_count'', JInt 10)] = Inl e
                    \<or> (\<exists>doc. make_request world_404 test_client ''GET'' r [(''_count'', JInt 10)] = Inr doc
                           \<and> validate_fhir_response doc = Inl e)
                  \<longrightarrow> d = \<lparr>accessible = False, total_available = None, issues_found = None,
                           data_quality_score = 0, error = Some (str_of e)\<rparr>)"
    by blast
  from a(3) t obtain d where d: "map_of (resource_assessments a) ''Patient'' = Some d"
    "\<forall>doc. make_request world_404 test_client ''GET'' ''Patient'' [(''_count'', JInt 10)] = Inr doc
                    \<and> dict_get doc ''resourceType'' JNull = JStr ''OperationOutcome''
                  \<longrightarrow> \<not> accessible d \<and> data_quality_score d = 0"
    by auto
  from d(2) m outcome_resource_type have "\<not> accessible d \<and> data_quality_score d = 0"
    by blast
  with a(1,2) t d(1) show ?thesis by auto
qed

lemma resource_record_category: "resource_record w self r = category_record w self r"
  by (simp add: resource_record_def category_record_def assess_resource_def and_then_def
        split: sum.splits)

text \<open>
  C8, amended. With no \<^verbatim>\<open>resource_type\<close>, or with the empty string, the assessment
  holds the four default types in their fixed order, each with the record that
  requesting and validating that type gives; with a non-empty \<^verbatim>\<open>resource_type\<close> it
  holds that one type only, with the record of that type.
\<close>

theorem assessed_categories:
  "\<exists>a. assess_data_quality w self requested = Inr a
     \<and> (requested = None \<or> requested = Some [] \<longrightarrow>
          resource_assessments a =
            [(''Patient'', category_record w self ''Patient''),
             (''Observation'', category_record w self ''Observation''),
             (''Condition'', category_record w self ''Condition''),
             (''MedicationRequest'', category_record w self ''MedicationRequest'')])
     \<and> (\<forall>r. requested = Some r \<and> r \<noteq> [] \<longrightarrow>
          resource_assessments a = [(r, category_record w self r)])"
  by (auto simp: assess_data_quality_eq test_resources_def resource_record_category)

lemma category_record_404:
  "r \<noteq> ''//['' \<Longrightarrow>
   category_record world_404 test_client r =
     \<lparr>accessible = False, total_available = Some (JInt 0),
      issues_found =
        Some [\<lparr>severity = JStr ''error'', code = JStr ''not-found'',
                details = JStr (''Resource not found: '' @ r)\<rparr>],
      data_quality_score = 0, error = None\<rparr>"
  by (simp add: category_record_def make_request_404 operation_outcome_def
        validate_fhir_response_def dict_get_def and_then_def copy_issue_def empty_quality_def
        calculate_quality_score_def)

text \<open>Every request answered with 404, and the one type Observation.\<close>

theorem assessed_categories_witness:
  "\<exists>a. assess_data_quality world_404 test_client (Some ''Observation'') = Inr a
     \<and> resource_assessments a =
         [(''Observation'',
           \<lparr>accessible = False, total_available = Some (JInt 0),
            issues_found =
              Some [\<lparr>severity = JStr ''error'', code = JStr ''not-found'',
                      details = JStr ''Resource not found: Observation''\<rparr>],
            data_quality_score = 0, error = None\<rparr>)]"
  using assessed_categories [of world_404 test_client "Some ''Observation''"]
  by (simp add: category_record_404)

text \<open>
  The claim as stated fails on the empty string: it is a \<^verbatim>\<open>resource_type\<close> that was
  supplied, and \<^verbatim>\<open>not resource_type\<close> holds of it, so the four default types are
  assessed and not the one supplied.
\<close>

theorem assessed_categories_counterexample:
  "map_sum id resource_assessments (assess_data_quality world_404 test_client (Some ''''))
   = Inr [(''Patient'', category_record world_404 test_client ''Patient''),
          (''Observation'', category_record world_404 test_client ''Observation''),
          (''Condition'', category_record world_404 test_client ''Condition''),
          (''MedicationRequest'', category_record world_404 test_client ''MedicationRequest'')]
   \<and> map_sum id resource_assessments (assess_data_quality world_404 test_client (Some ''''))
   \<noteq> Inr [('''', category_record world_404 test_client '''')]"
  by (simp add: assess_data_quality_eq test_resources_def resource_record_category)

section \<open>Properties of the average\<close>

lemma format_issues_ok:
  "list_all (\<lambda>i. is_str (severity i)) found \<Longrightarrow> format_issues found = Inr ()"
proof (induction found)
  case Nil
  then show ?case by simp
next
  case (Cons i found)
  then obtain s where "severity i = JStr s" by (cases "severity i") simp_all
  with Cons show ?case by simp
qed

lemma sum_scores_eq:
  "list_all record_ok (map snd xs) \<Longrightarrow>
   sum_scores s c xs =
     Inr (s + sum_list (map data_quality_score (filter accessible (map snd xs))),
          c + length (filter accessible (map snd xs)))"
proof (induction xs arbitrary: s c)
  case Nil
  then show ?case by simp
next
  case (Cons x xs)
  obtain r d where x: "x = (r, d)" by (cases x)
  from Cons.prems x have ok: "record_ok d" and rest: "list_all record_ok (map snd xs)"
    by simp_all
  show ?case
  proof (cases "accessible d")
    case True
    with ok obtain t found where "total_available d = Some t" "issues_found d = Some found"
      "list_all (\<lambda>i. is_str (severity i)) found"
      by (auto simp: record_ok_def)
    with True format_issues_ok [of found] Cons.IH [OF rest] show ?thesis
      by (simp add: x and_then_def)
  next
    case False
    with Cons.IH [OF rest] show ?thesis
      by (simp add: x)
  qed
qed

lemma valid_issues_str:
  assumes "validate_fhir_response doc = Inr v" and "is_valid v"
  shows "list_all (\<lambda>i. is_str (severity i)) (issues v)"
proof (cases "dict_get doc ''resourceType'' JNull = JStr ''OperationOutcome''")
  case True
  from outcome_result_invalid [OF assms(1) True] assms(2) show ?thesis by simp
next
  case False
  show ?thesis
  proof (cases "dict_get doc ''resourceType'' JNull = JStr ''Bundle''")
    case True
    from bundle_result [OF assms(1) True] show ?thesis
      by (auto simp: check_orphans_cases orphan_issue_def)
  next
    case nb: False
    with False assms(1) show ?thesis
      by (auto simp: validate_fhir_response_def Let_def)
  qed
qed

lemma resource_record_ok: "record_ok (resource_record w self r)"
proof (cases "assess_resource w self r")
  case (Inl e)
  then show ?thesis
    by (simp add: resource_record_def failed_record_def record_ok_def)
next
  case (Inr d)
  then obtain doc v where "validate_fhir_response doc = Inr v"
    and d: "d = \<lparr>accessible = is_valid v,
            total_available =
              Some (case total_resources (data_quality v) of None \<Rightarrow> JInt 0 | Some t \<Rightarrow> t),
            issues_found = Some (issues v),
            data_quality_score = calculate_quality_score v,
            error = None\<rparr>"
    by (auto simp: assess_resource_def and_then_def split: sum.splits)
  with valid_issues_str [of doc v] Inr show ?thesis
    by (simp add: resource_record_def record_ok_def)
qed

text \<open>
  C9. Formatting an assessment never raises, and the average it reports is the sum of
  the scores of the accessible types divided by their number; with no accessible type
  no average is reported.
\<close>

theorem average_over_accessible:
  assumes "assess_data_quality w self requested = Inr a"
  shows "overall_average a =
           Inr (if accessible_records a = [] then None
                else Some (sum_list (map data_quality_score (accessible_records a))
                             / real (length (accessible_records a))))"
proof -
  from assms assess_data_quality_eq [of w self requested]
  have a: "resource_assessments a =
             map (\<lambda>r. (r, resource_record w self r)) (test_resources requested)"
    by auto
  have "list_all record_ok (map snd (resource_assessments a))"
    unfolding a by (simp add: list_all_iff resource_record_ok)
  from sum_scores_eq [OF this, of 0 0]
  have "sum_scores 0 0 (resource_assessments a) =
          Inr (sum_list (map data_quality_score (accessible_records a)),
               length (accessible_records a))"
    by (simp only: accessible_records_def add_0)
  then show ?thesis
    by (simp add: overall_average_def and_then_def)
qed

lemma patients_only_patient:
  "resource_record world_patients_only test_client ''Patient'' =
     \<lparr>accessible = True, total_available = Some (JInt 2), issues_found = Some [],
      data_quality_score = 100, error = None\<rparr>"
proof -
  have m: "make_request world_patients_only test_client ''GET'' ''Patient'' [(''_count'', JInt 10)]
             = Inr bundle_linked"
    by (simp add: make_request_def send_request_def and_then_def try_except_def
          world_patients_only_def plain_urljoin_def test_client_def read_json_def)
  have v: "validate_fhir_response bundle_linked =
     Inr \<lparr>is_valid = True, issues = [],
          data_quality =
            \<lparr>total_resources = Some (JInt 2), returned_resources = Some 2,
             has_next_page = Some False,
             resource_types = Some [JStr ''Patient'', JStr ''Observation''],
             orphaned_patient_refs = None\<rparr>,
          resource_type = JStr ''Bundle''\<rparr>"
    by (simp add: bundle_linked_def eval_defs validate_fhir_response_def validate_bundle_def
          and_then_def add_subject_ref_def check_orphans_def set_diff_def same_element_def
          empty_quality_def)
  show ?thesis
    by (simp add: resource_record_def assess_resource_def m v and_then_def
          calculate_quality_score_def py_eq_zero_def)
qed

lemma patients_only_other:
  assumes "r \<noteq> ''Patient''" and "r \<noteq> ''//[''"
  shows "\<not> accessible (resource_record world_patients_only test_client r)"
proof -
  have "make_request world_patients_only test_client ''GET'' r [(''_count'', JInt 10)]
          = Inr (operation_outcome ''error'' ''not-found'' (''Resource not found: '' @ r))"
    using assms
    by (simp add: make_request_def send_request_def and_then_def try_except_def
          world_patients_only_def plain_urljoin_def test_client_def not_found_response_def)
  from outcome_record [OF this outcome_resource_type] show ?thesis by simp
qed

text \<open>
  One accessible type with score \<open>100\<close> and three inaccessible ones: the average is
  \<open>100\<close>, not \<open>25\<close>.
\<close>

theorem average_over_accessible_witness:
  "\<exists>a. assess_data_quality world_patients_only test_client None = Inr a
     \<and> map (\<lambda>(r, d). (r, accessible d)) (resource_assessments a) =
         [(''Patient'', True), (''Observation'', False), (''Condition'', False),
          (''MedicationRequest'', False)]
     \<and> overall_average a = Inr (Some 100)"
proof -
  let ?a = "\<lparr>server_url = base_url test_client, timestamp = now_isoformat world_patients_only,
          resource_assessments =
            map (\<lambda>r. (r, resource_record world_patients_only test_client r))
              (test_resources None)\<rparr>"
  have a: "assess_data_quality world_patients_only test_client None = Inr ?a"
    by (rule assess_data_quality_eq)
  have acc: "map (\<lambda>(r, d). (r, accessible d)) (resource_assessments ?a) =
         [(''Patient'', True), (''Observation'', False), (''Condition'', False),
          (''MedicationRequest'', False)]"
    by (simp add: test_resources_def patients_only_patient patients_only_other)
  have recs: "accessible_records ?a =
     [\<lparr>accessible = True, total_available = Some (JInt 2), issues_found = Some [],
       data_quality_score = 100, error = None\<rparr>]"
    by (simp add: accessible_records_def test_resources_def patients_only_patient
          patients_only_other)
  from average_over_accessible [OF a] have avg: "overall_average ?a = Inr (Some 100)"
    by (simp add: recs)
  show ?thesis
    by (rule exI [of _ ?a]) (intro conjI a acc avg)
qed

end
